theory Spec2Isabelle
  imports Main
begin

section \<open>Flow specifications and their normalisation\<close>

text \<open>
  The three builders of the repository (\<open>createFlowMachineWithData\<close>,
  \<open>createFlowMachine\<close>, \<open>makeFlowMachine\<close>) validate a list of flow specs, build a
  configuration object from it and return what \<open>createMachine\<close> of the xstate library
  makes of that object.  Strings are lists of the 8-bit characters of HOL; an object
  used as a dictionary is the finite map of its own properties, or the list of its
  entries where its keys are walked through; \<open>undefined\<close> is \<open>None\<close>; a thrown error
  is the left summand of the result; console output is returned as a list of messages.
  The value that an event carries is of any type \<open>'v\<close> (which has \<open>undefined\<close> where
  events come without one), the attached data of any type \<open>'d\<close>.  No state is taken
  to be named \<open>__proto__\<close> and the update map to have no own key \<open>__proto__\<close>, which
  an object does not keep like any other key.
\<close>

type_synonym StateName = string

record FlowSpec =
  name :: StateName
  to :: "StateName list"
  terminal :: "bool option"

text \<open>An updater maps (data, event value, current state) to the new data.\<close>

type_synonym ('d, 'v) UpdateMap = "string \<rightharpoonup> ('d \<Rightarrow> 'v \<Rightarrow> string \<Rightarrow> 'd)"
type_synonym Restrictions = "string \<rightharpoonup> StateName list"

text \<open>What is thrown: an \<open>Error\<close> of the builders with its message, a \<open>TypeError\<close> of
  the language, or an error of the xstate library (whose text is not a matter here).\<close>

datatype error = Error string | TypeError | XStateError

datatype console = console_error string | console_warn string

text \<open>Truthiness of an optional boolean (\<open>!!s.terminal\<close>, \<open>s.terminal ? _ : _\<close>) and of
  the optional string returned by \<open>Array.prototype.find\<close> (\<open>if (dup)\<close>): \<open>undefined\<close> and
  the empty string are falsy.\<close>

definition truthy :: "bool option \<Rightarrow> bool" where
  "truthy b = (case b of None \<Rightarrow> False | Some v \<Rightarrow> v)"

definition truthy_str :: "string option \<Rightarrow> bool" where
  "truthy_str s = (case s of None \<Rightarrow> False | Some v \<Rightarrow> v \<noteq> [])"

text \<open>\<open>String.prototype.trim\<close>: the white space and line terminators of ECMAScript that
  are 8-bit characters.  A name is a string, so \<open>norm\<close> is \<open>trim\<close>.\<close>

definition is_ws :: "char \<Rightarrow> bool" where
  "is_ws c = (c \<in> set [CHR 0x09, CHR 0x0A, CHR 0x0B, CHR 0x0C, CHR 0x0D, CHR 0x20, CHR 0xA0])"

definition trim :: "string \<Rightarrow> string" where
  "trim s = rev (dropWhile is_ws (rev (dropWhile is_ws s)))"

definition norm :: "string \<Rightarrow> string" where
  "norm s = trim s"

definition normalizeSpecs :: "FlowSpec list \<Rightarrow> FlowSpec list" where
  "normalizeSpecs specs =
     map (\<lambda>s. \<lparr>name = norm (name s), to = map norm (to s), terminal = Some (truthy (terminal s))\<rparr>) specs"

section \<open>Arrays, objects and template strings\<close>

text \<open>\<open>Object.fromEntries\<close> and \<open>new Map(entries)\<close>: a later entry overwrites an earlier
  one with the same key.\<close>

definition fromEntries :: "('k \<times> 'v) list \<Rightarrow> ('k \<rightharpoonup> 'v)" where
  "fromEntries es = fold (\<lambda>(k, v) m. m(k \<mapsto> v)) es Map.empty"

definition has :: "('k \<rightharpoonup> 'v) \<Rightarrow> 'k \<Rightarrow> bool" where
  "has m k = (m k \<noteq> None)"

text \<open>\<open>Array.prototype.indexOf\<close> (first index, or \<open>-1\<close>) and \<open>Array.prototype.find\<close>
  with the index passed to the predicate.\<close>

fun indexOf :: "'a list \<Rightarrow> 'a \<Rightarrow> int" where
  "indexOf [] x = - 1"
| "indexOf (y # ys) x =
     (if y = x then 0 else (let i = indexOf ys x in if i < 0 then - 1 else i + 1))"

fun find_from :: "('a \<Rightarrow> nat \<Rightarrow> bool) \<Rightarrow> 'a list \<Rightarrow> nat \<Rightarrow> 'a option" where
  "find_from p [] i = None"
| "find_from p (x # xs) i = (if p x i then Some x else find_from p xs (Suc i))"

definition find_idx :: "('a \<Rightarrow> nat \<Rightarrow> bool) \<Rightarrow> 'a list \<Rightarrow> 'a option" where
  "find_idx p xs = find_from p xs 0"

fun join :: "string \<Rightarrow> string list \<Rightarrow> string" where
  "join sep [] = []"
| "join sep [x] = x"
| "join sep (x # y # ys) = x @ sep @ join sep (y # ys)"

definition quoted :: "string \<Rightarrow> string" where
  "quoted s = [CHR 0x27] @ s @ [CHR 0x27]"

section \<open>The machine configuration\<close>

text \<open>The configuration handed to \<open>createMachine\<close>.  A state node is
  \<open>{ type: "final" }\<close> or \<open>{ on: { TO_t: { target: t }, ... } }\<close>; the \<open>states\<close> object
  and the \<open>on\<close> object of a node are kept as the entry lists that
  \<open>Object.fromEntries\<close> receives, of which a later entry overwrites an earlier one with
  the same key.  A transition of the root \<open>on\<close> table has an optional guard and actions.
  A guard and the function assigned to the data are applied to the data of the context
  and the value of the event, and either may raise.  An action is \<open>assign\<close> of the
  data or a console warning.\<close>

datatype NodeConfig = final_node | on_node "(string \<times> StateName) list"

datatype ('d, 'v) action = assign "'d \<Rightarrow> 'v \<Rightarrow> error + 'd" | warn string

record ('d, 'v) transition =
  guard :: "('d \<Rightarrow> 'v \<Rightarrow> error + bool) option"
  actions :: "('d, 'v) action list"

record ('d, 'v) config =
  cfg_id :: string
  cfg_context :: 'd
  cfg_initial :: StateName
  cfg_states :: "(StateName \<times> NodeConfig) list"
  cfg_on :: "string \<rightharpoonup> ('d, 'v) transition list"

text \<open>The machine that \<open>createMachine\<close> returns: the configuration with its two
  objects as maps.\<close>

datatype StateNode = Final | On "string \<rightharpoonup> StateName"

record ('d, 'v) machine =
  machine_id :: string
  context_data :: 'd
  initial :: StateName
  states :: "StateName \<rightharpoonup> StateNode"
  on :: "string \<rightharpoonup> ('d, 'v) transition list"

subsection \<open>What createMachine accepts\<close>

text \<open>\<open>createMachine\<close> of xstate (version 5) builds the state nodes and resolves every
  transition, and throws where it cannot.  Of that, the tables of the builders meet
  this much: a machine with states needs a non-empty \<open>initial\<close> (the empty string counts
  as none given); the empty string is no event type of an \<open>on\<close> object; the target
  \<open>""\<close> means no target; any other target of a state must name a sibling state.  A
  target that holds a dot or a backslash or begins with \<open>#\<close> is a path or an id to the
  library and not a name: the library rejects it unless it spells an existing node in
  that syntax.  Where the library resolves a target in another way than by the name of a
  sibling state (a path, an id, a property that every object inherits), the outcome is
  left out here and the target counts as rejected.\<close>

definition path_free :: "string \<Rightarrow> bool" where
  "path_free t =
     (CHR ''.'' \<notin> set t \<and> CHR 0x5C \<notin> set t \<and> (case t of [] \<Rightarrow> True | c # _ \<Rightarrow> c \<noteq> CHR ''#''))"

definition resolve_target :: "(StateName \<rightharpoonup> StateNode) \<Rightarrow> string \<Rightarrow> error + StateName option" where
  "resolve_target sts t =
     (if t = [] then Inr None
      else if path_free t \<and> sts t \<noteq> None then Inr (Some t)
      else Inl XStateError)"

fun node_of :: "NodeConfig \<Rightarrow> StateNode" where
  "node_of final_node = Final"
| "node_of (on_node es) = On (fromEntries es)"

fun transitions_ok :: "(StateName \<rightharpoonup> StateNode) \<Rightarrow> NodeConfig \<Rightarrow> bool" where
  "transitions_ok sts final_node = True"
| "transitions_ok sts (on_node es) =
     list_all (\<lambda>(e, t). e \<noteq> [] \<and> \<not> isl (resolve_target sts t)) es"

definition createMachine :: "('d, 'v) config \<Rightarrow> error + ('d, 'v) machine" where
  "createMachine cfg =
     (let sts = fromEntries (map (\<lambda>(k, n). (k, node_of n)) (cfg_states cfg)) in
      if cfg_states cfg \<noteq> [] \<and> cfg_initial cfg = [] then Inl XStateError
      else if cfg_on cfg [] \<noteq> None then Inl XStateError
      else if \<not> list_all (\<lambda>k. case fromEntries (cfg_states cfg) k of
                                   None \<Rightarrow> True
                                 | Some n \<Rightarrow> transitions_ok sts n)
                         (map fst (cfg_states cfg))
      then Inl XStateError
      else Inr \<lparr>machine_id = cfg_id cfg, context_data = cfg_context cfg,
                initial = cfg_initial cfg, states = sts, on = cfg_on cfg\<rparr>)"

subsection \<open>The state table\<close>

text \<open>The \<open>states\<close> object, built the same way by the three builders: one
  \<open>TO_<target>\<close> event per entry of \<open>to\<close>, unless the spec is terminal.\<close>

definition node_config :: "FlowSpec \<Rightarrow> NodeConfig" where
  "node_config s =
     (if truthy (terminal s) then final_node
      else on_node (map (\<lambda>t. (''TO_'' @ t, t)) (to s)))"

definition states_config :: "FlowSpec list \<Rightarrow> (StateName \<times> NodeConfig) list" where
  "states_config specs = map (\<lambda>s. (name s, node_config s)) specs"

text \<open>The same table as the maps that the machine holds.\<close>

definition edge_events :: "FlowSpec \<Rightarrow> (string \<rightharpoonup> StateName)" where
  "edge_events s = fromEntries (map (\<lambda>t. (''TO_'' @ t, t)) (to s))"

definition state_node :: "FlowSpec \<Rightarrow> StateNode" where
  "state_node s = (if truthy (terminal s) then Final else On (edge_events s))"

definition state_table :: "FlowSpec list \<Rightarrow> (StateName \<rightharpoonup> StateNode)" where
  "state_table specs = fromEntries (map (\<lambda>s. (name s, state_node s)) specs)"

definition byName :: "FlowSpec list \<Rightarrow> (StateName \<rightharpoonup> FlowSpec)" where
  "byName specs = fromEntries (map (\<lambda>s. (name s, s)) specs)"

definition find_dup :: "StateName list \<Rightarrow> StateName option" where
  "find_dup names = find_idx (\<lambda>n i. indexOf names n \<noteq> int i) names"

text \<open>The pairs (state, target) whose target no spec declares, in the order of the two
  nested loops.\<close>

definition dangling :: "FlowSpec list \<Rightarrow> (StateName \<times> StateName) list" where
  "dangling specs =
     concat (map (\<lambda>s. map (\<lambda>t. (name s, t)) (filter (\<lambda>t. \<not> has (byName specs) t) (to s))) specs)"

subsection \<open>The data-carrying builder\<close>

text \<open>\<open>(restricted?.[eventType] ?? []).map(norm)\<close>.  The lookup finds an own entry of
  the restriction object or, for the names that every object inherits, the inherited
  property, which is no array: \<open>.map\<close> of it is not a function and the call raises.\<close>

definition object_prototype_keys :: "string list" where
  "object_prototype_keys =
     [''constructor'', ''hasOwnProperty'', ''isPrototypeOf'', ''propertyIsEnumerable'',
      ''toLocaleString'', ''toString'', ''valueOf'', ''__proto__'',
      ''__defineGetter__'', ''__defineSetter__'', ''__lookupGetter__'', ''__lookupSetter__'']"

definition allowed_states :: "Restrictions option \<Rightarrow> string \<Rightarrow> error + StateName list" where
  "allowed_states restricted eventType =
     (case restricted of
        None \<Rightarrow> Inr []
      | Some r \<Rightarrow>
          (case r eventType of
             Some xs \<Rightarrow> Inr (map norm xs)
           | None \<Rightarrow> if eventType \<in> set object_prototype_keys then Inl TypeError else Inr []))"

text \<open>The guard of the restricted handler takes \<open>self\<close> from its argument, which holds
  \<open>context\<close> and \<open>event\<close> only: \<open>self\<close> is \<open>undefined\<close> there and \<open>self.getSnapshot()\<close>
  raises.  The function assigned to \<open>data\<close> takes only \<open>context\<close> and \<open>event\<close> from its
  argument, so the \<open>self\<close> in its body is the global \<open>self\<close> of the page, the window,
  which has no \<open>getSnapshot\<close>: the third argument of the updater is evaluated before the
  call and raises.\<close>

definition guard_self_value :: "error + StateName" where
  "guard_self_value = Inl TypeError"

definition global_self_value :: "error + StateName" where
  "global_self_value = Inl TypeError"

definition update_handler ::
  "StateName list \<Rightarrow> string \<Rightarrow> ('d \<Rightarrow> 'v \<Rightarrow> string \<Rightarrow> 'd) \<Rightarrow> ('d, 'v) transition list" where
  "update_handler allowed eventType updater =
     (if allowed \<noteq> [] then
        [\<lparr>guard = Some (\<lambda>d v. case guard_self_value of
                                  Inl err \<Rightarrow> Inl err
                                | Inr cur \<Rightarrow> Inr (cur \<in> set allowed)),
          actions = [assign (\<lambda>d v. case global_self_value of
                                      Inl err \<Rightarrow> Inl err
                                    | Inr cur \<Rightarrow> Inr (updater d v cur))]\<rparr>,
         \<lparr>guard = None,
          actions = [warn (''[FlowRunnerWithData] '' @ quoted eventType @ '' ignored in this state'')]\<rparr>]
      else
        [\<lparr>guard = None, actions = [assign (\<lambda>d v. Inr (updater d v []))]\<rparr>])"

text \<open>The loop over \<open>Object.entries(updates ?? {})\<close> stores one handler per key of the
  update map in the root \<open>on\<close> table, and ends with the error of the first key whose
  restriction lookup raises.\<close>

definition update_table ::
  "('d, 'v) UpdateMap option \<Rightarrow> Restrictions option \<Rightarrow> (string \<rightharpoonup> ('d, 'v) transition list)" where
  "update_table updates restricted =
     (\<lambda>eventType. case (case updates of None \<Rightarrow> Map.empty | Some u \<Rightarrow> u) eventType of
                     None \<Rightarrow> None
                   | Some updater \<Rightarrow>
                       (case allowed_states restricted eventType of
                          Inl err \<Rightarrow> None
                        | Inr allowed \<Rightarrow> Some (update_handler allowed eventType updater)))"

definition update_events ::
  "('d, 'v) UpdateMap option \<Rightarrow> Restrictions option
     \<Rightarrow> error + (string \<rightharpoonup> ('d, 'v) transition list)" where
  "update_events updates restricted =
     (if list_ex (\<lambda>e. (case updates of None \<Rightarrow> Map.empty | Some u \<Rightarrow> u) e \<noteq> None
                       \<and> isl (allowed_states restricted e))
                 object_prototype_keys
      then Inl TypeError
      else Inr (update_table updates restricted))"

definition createFlowMachineWithData ::
  "FlowSpec list \<Rightarrow> 'd \<Rightarrow> ('d, 'v) UpdateMap option \<Rightarrow> Restrictions option \<Rightarrow> string
     \<Rightarrow> error + ('d, 'v) machine" where
  "createFlowMachineWithData inputSpecs initialContext updates restricted mid =
     (let specs = normalizeSpecs inputSpecs in
      if specs = [] then Inl (Error ''specs cannot be empty'')
      else
        let names = map name specs; dup = find_dup names in
        if truthy_str dup then
          Inl (Error (''[FlowRunnerWithData] Duplicate state name: ''
                        @ quoted (case dup of Some d \<Rightarrow> d | None \<Rightarrow> []) @ ''.''))
        else
          let missing = map (\<lambda>(s, t). quoted s @ '' -> '' @ quoted t) (dangling specs) in
          if missing \<noteq> [] then
            Inl (Error (''[FlowRunnerWithData] Undefined targets: '' @ join '', '' missing))
          else
            (case update_events updates restricted of
               Inl err \<Rightarrow> Inl err
             | Inr root_on \<Rightarrow>
                 createMachine \<lparr>cfg_id = mid, cfg_context = initialContext,
                                cfg_initial = name (hd specs),
                                cfg_states = states_config specs, cfg_on = root_on\<rparr>))"

subsection \<open>The plain builders\<close>

text \<open>What a call writes to the console before it hands the table to
  \<open>createMachine\<close>, whether or not that returns.\<close>

definition createFlowMachine_console :: "FlowSpec list \<Rightarrow> console list" where
  "createFlowMachine_console specs =
     (if specs = [] then []
      else
        let names = map name specs; dup = find_dup names;
            log_dup = (if truthy_str dup
                       then [console_error (''[FlowRunner] Duplicate state name: ''
                                @ quoted (case dup of Some d \<Rightarrow> d | None \<Rightarrow> []) @ ''.'')]
                       else []);
            log_edges = map (\<lambda>(s, t). console_error
                               (''[FlowRunner] Unknown target '' @ quoted t @ '' from '' @ quoted s @ ''.''))
                            (dangling specs)
        in log_dup @ log_edges)"

definition createFlowMachine :: "FlowSpec list \<Rightarrow> string \<Rightarrow> error + ((unit, 'v) machine \<times> console list)" where
  "createFlowMachine specs mid =
     (if specs = [] then Inl (Error ''specs cannot be empty'')
      else
        (case createMachine \<lparr>cfg_id = mid, cfg_context = (), cfg_initial = name (hd specs),
                              cfg_states = states_config specs, cfg_on = Map.empty\<rparr> of
           Inl err \<Rightarrow> Inl err
         | Inr m \<Rightarrow> Inr (m, createFlowMachine_console specs)))"

definition makeFlowMachine_console :: "FlowSpec list \<Rightarrow> console list" where
  "makeFlowMachine_console specs =
     (if specs = [] then []
      else map (\<lambda>(s, t). console_error
                  (''[FlowMachine] Unknown target '' @ quoted t @ '' from state '' @ quoted s @ ''.''))
               (dangling specs))"

definition makeFlowMachine :: "FlowSpec list \<Rightarrow> string \<Rightarrow> error + ((unit, 'v) machine \<times> console list)" where
  "makeFlowMachine specs mid =
     (if specs = [] then Inl (Error ''specs cannot be empty'')
      else
        (case createMachine \<lparr>cfg_id = mid, cfg_context = (), cfg_initial = name (hd specs),
                              cfg_states = states_config specs, cfg_on = Map.empty\<rparr> of
           Inl err \<Rightarrow> Inl err
         | Inr m \<Rightarrow> Inr (m, makeFlowMachine_console specs)))"

section \<open>Running a machine\<close>

text \<open>What the actor of the library does with an event, as far as these tables go.  It
  holds one current state value and the attached data and processes one event at a
  time.  An event is looked up in the table of the current state first and in the root
  table after that.  A transition of a state enters its target, or stays where the
  target is \<open>""\<close>.  In the root table the transitions under the event type are the
  candidates or, where the table has no such key, those under the wildcard keys that
  match the type, the longest key first (\<open>a.b.*\<close> before \<open>a.*\<close> before \<open>*\<close>); the first
  candidate whose guard passes is taken and its actions run without leaving the state.
  A guard or an action that raises leaves the actor in its error status, with the state
  value and the data it had; no further candidate is tried and no further event taken.
  The snapshot keeps that the actor has failed (\<open>snap_error\<close>), not the error.
  Once the current state is a final state the machine is done and takes no further
  event either.  A table of a state that \<open>createMachine\<close> accepted has no wildcard key,
  so its keys are compared as they are.\<close>

record 'd snapshot =
  snap_value :: StateName
  snap_data :: 'd
  snap_error :: "unit option"

record 'v event =
  event_type :: string
  event_value :: 'v

fun split_on :: "char \<Rightarrow> string \<Rightarrow> string list" where
  "split_on c [] = [] # []"
| "split_on c (x # xs) =
     (if x = c then [] # split_on c xs
      else (case split_on c xs of [] \<Rightarrow> [x] # [] | seg # rest \<Rightarrow> (x # seg) # rest))"

fun token_prefixes :: "string list \<Rightarrow> string list list" where
  "token_prefixes [] = []"
| "token_prefixes (x # xs) = [x] # map ((#) x) (token_prefixes xs)"

definition wildcard_keys :: "string \<Rightarrow> string list" where
  "wildcard_keys eventType =
     concat (map (\<lambda>p. if ''*'' \<in> set p then [] else [join ''.'' p @ ''.*''])
                 (rev (token_prefixes (split_on CHR ''.'' eventType))))
     @ [''*'']"

definition get_candidates ::
  "(string \<rightharpoonup> ('d, 'v) transition list) \<Rightarrow> string \<Rightarrow> ('d, 'v) transition list" where
  "get_candidates tbl eventType =
     (case tbl eventType of
        Some ts \<Rightarrow> ts
      | None \<Rightarrow> concat (map (\<lambda>k. case tbl k of None \<Rightarrow> [] | Some ts \<Rightarrow> ts)
                            (wildcard_keys eventType)))"

fun select_transition ::
  "('d, 'v) transition list \<Rightarrow> 'd \<Rightarrow> 'v \<Rightarrow> error + ('d, 'v) transition option" where
  "select_transition [] d v = Inr None"
| "select_transition (t # ts) d v =
     (case guard t of
        None \<Rightarrow> Inr (Some t)
      | Some g \<Rightarrow>
          (case g d v of
             Inl err \<Rightarrow> Inl err
           | Inr ok \<Rightarrow> if ok then Inr (Some t) else select_transition ts d v))"

fun exec_action ::
  "'v \<Rightarrow> ('d, 'v) action \<Rightarrow> 'd snapshot \<times> console list \<Rightarrow> 'd snapshot \<times> console list" where
  "exec_action v (assign f) (snap, out) =
     (if snap_error snap \<noteq> None then (snap, out)
      else case f (snap_data snap) v of
             Inl err \<Rightarrow> (snap\<lparr>snap_error := Some ()\<rparr>, out)
           | Inr d \<Rightarrow> (snap\<lparr>snap_data := d\<rparr>, out))"
| "exec_action v (warn msg) (snap, out) =
     (if snap_error snap \<noteq> None then (snap, out) else (snap, out @ [console_warn msg]))"

definition root_next ::
  "('d, 'v) machine \<Rightarrow> 'd snapshot \<Rightarrow> 'v event \<Rightarrow> 'd snapshot \<times> console list" where
  "root_next m snap ev =
     (case select_transition (get_candidates (on m) (event_type ev))
             (snap_data snap) (event_value ev) of
        Inl err \<Rightarrow> (snap\<lparr>snap_error := Some ()\<rparr>, [])
      | Inr None \<Rightarrow> (snap, [])
      | Inr (Some t) \<Rightarrow> fold (exec_action (event_value ev)) (actions t) (snap, []))"

definition send ::
  "('d, 'v) machine \<Rightarrow> 'd snapshot \<Rightarrow> 'v event \<Rightarrow> 'd snapshot \<times> console list" where
  "send m snap ev =
     (if snap_error snap \<noteq> None then (snap, [])
      else case states m (snap_value snap) of
        None \<Rightarrow> root_next m snap ev
      | Some Final \<Rightarrow> (snap, [])
      | Some (On tbl) \<Rightarrow>
          (case tbl (event_type ev) of
             Some t \<Rightarrow> if t = [] then (snap, []) else (snap\<lparr>snap_value := t\<rparr>, [])
           | None \<Rightarrow> root_next m snap ev))"

fun run :: "('d, 'v) machine \<Rightarrow> 'd snapshot \<Rightarrow> 'v event list \<Rightarrow> 'd snapshot" where
  "run m snap [] = snap"
| "run m snap (ev # evs) = run m (fst (send m snap ev)) evs"

section \<open>Notions of the claims\<close>

text \<open>A valid spec set: not empty, names unique, every target declared.\<close>

definition valid_specs :: "FlowSpec list \<Rightarrow> bool" where
  "valid_specs specs =
     (specs \<noteq> [] \<and> distinct (map name specs) \<and>
      list_all (\<lambda>s. list_all (\<lambda>t. t \<in> set (map name specs)) (to s)) specs)"

text \<open>Names that \<open>createMachine\<close> takes as names: the first name is not empty, and the
  targets of the specs that are not terminal hold no dot and no backslash and do not
  begin with \<open>#\<close>.\<close>

definition names_ok :: "FlowSpec list \<Rightarrow> bool" where
  "names_ok specs =
     (name (hd specs) \<noteq> [] \<and>
      list_all (\<lambda>s. truthy (terminal s) \<or> list_all path_free (to s)) specs)"


text \<open>Update keys that the data-carrying builder and \<open>createMachine\<close> take: the empty
  string is no key, and a key that every object inherits has its own entry in the
  restriction object where one is given.\<close>

definition updates_ok :: "('d, 'v) UpdateMap option \<Rightarrow> Restrictions option \<Rightarrow> bool" where
  "updates_ok updates restricted =
     (case updates of
        None \<Rightarrow> True
      | Some u \<Rightarrow>
          u [] = None \<and>
          list_all (\<lambda>e. u e = None \<or> \<not> isl (allowed_states restricted e)) object_prototype_keys)"



text \<open>Two tests on the current state of a built machine: whether it is a final state,
  and whether its own table has an entry for an event type (which the runtime then
  takes before it looks at the root table).\<close>

definition final_state :: "('d, 'v) machine \<Rightarrow> StateName \<Rightarrow> bool" where
  "final_state m cur = (states m cur = Some Final)"

definition edge_event :: "('d, 'v) machine \<Rightarrow> StateName \<Rightarrow> string \<Rightarrow> bool" where
  "edge_event m cur e = (case states m cur of Some (On tbl) \<Rightarrow> tbl e \<noteq> None | _ \<Rightarrow> False)"

section \<open>Examples\<close>

text \<open>The scenario of the specification: Init, then Edit, then the terminal Saved.\<close>

definition scenario_specs :: "FlowSpec list" where
  "scenario_specs =
     [\<lparr>name = ''Init'', to = [''Edit''], terminal = None\<rparr>,
      \<lparr>name = ''Edit'', to = [''Saved''], terminal = None\<rparr>,
      \<lparr>name = ''Saved'', to = [], terminal = Some True\<rparr>]"

text \<open>The data scenario of the specification: the data is the field \<open>x\<close>, and \<open>SET_X\<close>
  stores the event value in it.  The update map also has a key that is spelled like the
  edge event from Init to Edit.\<close>

definition set_x :: "nat \<Rightarrow> nat \<Rightarrow> string \<Rightarrow> nat" where
  "set_x d v cur = v"

definition scenario_updates :: "(nat, nat) UpdateMap" where
  "scenario_updates = [''SET_X'' \<mapsto> set_x, ''TO_Edit'' \<mapsto> set_x]"

definition scenario_machine :: "Restrictions option \<Rightarrow> error + (nat, nat) machine" where
  "scenario_machine restricted =
     createFlowMachineWithData scenario_specs 0 (Some scenario_updates) restricted ''runtimeFlow''"

definition scenario_restricted :: Restrictions where
  "scenario_restricted = [''SET_X'' \<mapsto> [''Edit'']]"

text \<open>A terminal spec whose name a later, non-terminal spec repeats; a list in which the
  empty name comes twice, after the first spec; a spec with an undeclared target; an
  undeclared target together with a repeated name; an undeclared target of a terminal
  spec.\<close>

definition shadowed_specs :: "FlowSpec list" where
  "shadowed_specs =
     [\<lparr>name = ''A'', to = [''B''], terminal = Some True\<rparr>,
      \<lparr>name = ''A'', to = [''B''], terminal = None\<rparr>,
      \<lparr>name = ''B'', to = [], terminal = None\<rparr>]"

definition blank_specs :: "FlowSpec list" where
  "blank_specs =
     [\<lparr>name = ''A'', to = [], terminal = None\<rparr>,
      \<lparr>name = '''', to = [], terminal = None\<rparr>,
      \<lparr>name = '''', to = [], terminal = None\<rparr>]"




text \<open>Valid lists with names that are not plain names to the library: a name with a
  dot, a name that begins with \<open>#\<close>, the empty name as the first name, and the empty
  name as a target.\<close>

definition dotted_specs :: "FlowSpec list" where
  "dotted_specs =
     [\<lparr>name = ''a.b'', to = [''c''], terminal = None\<rparr>,
      \<lparr>name = ''c'', to = [''a.b''], terminal = None\<rparr>]"

definition hash_specs :: "FlowSpec list" where
  "hash_specs =
     [\<lparr>name = ''A'', to = [''#B''], terminal = None\<rparr>,
      \<lparr>name = ''#B'', to = [], terminal = None\<rparr>]"

definition blank_first_specs :: "FlowSpec list" where
  "blank_first_specs = [\<lparr>name = '''', to = [], terminal = None\<rparr>]"


text \<open>Update maps whose one key is the name of a property that every object inherits,
  the empty string, and the wildcard.\<close>

definition inherited_updates :: "(nat, nat) UpdateMap" where
  "inherited_updates = [''constructor'' \<mapsto> set_x]"

definition blank_key_updates :: "(nat, nat) UpdateMap" where
  "blank_key_updates = ['''' \<mapsto> set_x]"


text \<open>The scenario with white space around its names.\<close>

definition padded_specs :: "FlowSpec list" where
  "padded_specs =
     [\<lparr>name = '' Init '', to = [''Edit ''], terminal = None\<rparr>,
      \<lparr>name = ''Edit'', to = ['' Saved''], terminal = None\<rparr>,
      \<lparr>name = ''Saved  '', to = [], terminal = Some True\<rparr>]"

section \<open>Facts about the helpers\<close>

lemma fold_upd_map_of:
  "fold (\<lambda>(k, v) m. m(k \<mapsto> v)) es m0 = m0 ++ map_of (rev es)"
  by (induction es arbitrary: m0) (auto simp: map_add_def fun_eq_iff split: option.splits)

lemma fromEntries_map_of: "fromEntries es = map_of (rev es)"
  by (simp add: fromEntries_def fold_upd_map_of)

lemma fromEntries_None_iff: "fromEntries es k = None \<longleftrightarrow> k \<notin> fst ` set es"
  by (simp add: fromEntries_map_of map_of_eq_None_iff)

lemma fromEntries_SomeD: "fromEntries es k = Some v \<Longrightarrow> (k, v) \<in> set es"
  by (auto simp: fromEntries_map_of dest: map_of_SomeD)

lemma fromEntries_distinct:
  "distinct (map fst es) \<Longrightarrow> (k, v) \<in> set es \<Longrightarrow> fromEntries es k = Some v"
  by (simp add: fromEntries_map_of distinct_rev rev_map [symmetric])

lemma has_byName: "has (byName specs) t \<longleftrightarrow> t \<in> set (map name specs)"
  by (auto simp: has_def byName_def fromEntries_None_iff image_iff)



lemma state_table_SomeD:
  "state_table specs n = Some nd \<Longrightarrow> \<exists>s \<in> set specs. name s = n \<and> nd = state_node s"
  by (auto simp: state_table_def dest!: fromEntries_SomeD)

lemma state_table_None_iff: "state_table specs n = None \<longleftrightarrow> n \<notin> set (map name specs)"
  by (auto simp: state_table_def fromEntries_None_iff image_iff)


lemma indexOf_ge: "- 1 \<le> indexOf xs x"
  by (induction xs) (auto simp: Let_def)

lemma indexOf_notin: "x \<notin> set xs \<Longrightarrow> indexOf (xs @ x # ys) x = int (length xs)"
  by (induction xs) (auto simp: Let_def)

lemma indexOf_in: "x \<in> set xs \<Longrightarrow> 0 \<le> indexOf (xs @ ys) x \<and> indexOf (xs @ ys) x < int (length xs)"
  by (induction xs) (auto simp: Let_def)

lemma find_from_dup_None:
  "distinct pre \<Longrightarrow>
   find_from (\<lambda>n i. indexOf (pre @ xs) n \<noteq> int i) xs (length pre) = None \<longleftrightarrow> distinct (pre @ xs)"
proof (induction xs arbitrary: pre)
  case Nil
  then show ?case by simp
next
  case (Cons x xs)
  show ?case
  proof (cases "x \<in> set pre")
    case True
    with indexOf_in [of x pre "x # xs"] show ?thesis by auto
  next
    case False
    with Cons.prems have d: "distinct (pre @ [x])" by simp
    from False have "indexOf (pre @ x # xs) x = int (length pre)" by (rule indexOf_notin)
    with Cons.IH [OF d] False show ?thesis by auto
  qed
qed

lemma find_dup_None_iff: "find_dup names = None \<longleftrightarrow> distinct names"
  using find_from_dup_None [of "[]" names] by (simp add: find_dup_def find_idx_def)



lemma dangling_Nil_iff:
  "dangling specs = [] \<longleftrightarrow> list_all (\<lambda>s. list_all (\<lambda>t. t \<in> set (map name specs)) (to s)) specs"
  by (auto simp: dangling_def has_byName list_all_iff filter_empty_conv)

lemma wildcard_keys_examples:
  "wildcard_keys ''SET_X'' = [''SET_X.*'', ''*'']"
  "wildcard_keys ''a.b.c'' = [''a.b.c.*'', ''a.b.*'', ''a.*'', ''*'']"
  "wildcard_keys ''a.*.c'' = [''a.*'', ''*'']"
  by (simp_all add: wildcard_keys_def)

lemma get_candidates_examples:
  "get_candidates [''a.*'' \<mapsto> [x], ''*'' \<mapsto> [y]] ''a.b'' = [x, y]"
  "get_candidates [''a.*'' \<mapsto> [x], ''*'' \<mapsto> [y], ''a.b'' \<mapsto> [z]] ''a.b'' = [z]"
  "get_candidates [''a.*'' \<mapsto> [x], ''*'' \<mapsto> [y]] ''b'' = [y]"
  "get_candidates [''a.*'' \<mapsto> [x]] ''b'' = []"
  by (simp_all add: get_candidates_def wildcard_keys_def)

lemma createMachine_examples:
  "createMachine \<lparr>cfg_id = ''m'', cfg_context = (), cfg_initial = ''A'',
       cfg_states = [(''A'', on_node [(''GO'', ''B'')]), (''B'', final_node)],
       cfg_on = (Map.empty :: string \<rightharpoonup> (unit, unit) transition list)\<rparr>
     = Inr \<lparr>machine_id = ''m'', context_data = (), initial = ''A'',
            states = [''A'' \<mapsto> On [''GO'' \<mapsto> ''B''], ''B'' \<mapsto> Final], on = Map.empty\<rparr>"
  "createMachine \<lparr>cfg_id = ''m'', cfg_context = (), cfg_initial = ''A'',
       cfg_states = [(''A'', on_node [('''', ''B'')]), (''B'', final_node)],
       cfg_on = (Map.empty :: string \<rightharpoonup> (unit, unit) transition list)\<rparr>
     = Inl XStateError"
  "createMachine \<lparr>cfg_id = ''m'', cfg_context = (), cfg_initial = ''A'',
       cfg_states = [(''A'', on_node [(''GO'', ''C'')]), (''B'', final_node)],
       cfg_on = (Map.empty :: string \<rightharpoonup> (unit, unit) transition list)\<rparr>
     = Inl XStateError"
  by (simp_all add: createMachine_def fromEntries_def resolve_target_def path_free_def fun_eq_iff)

lemma restricted_handler_raises:
  "select_transition (update_handler [''Edit''] ''SET_X'' set_x) d v = Inl TypeError"
  "exec_action v (hd (actions (hd (update_handler [''Edit''] ''SET_X'' set_x))))
       (\<lparr>snap_value = ''Edit'', snap_data = d, snap_error = None\<rparr>, [])
     = (\<lparr>snap_value = ''Edit'', snap_data = d, snap_error = Some ()\<rparr>, [])"
  by (simp_all add: update_handler_def guard_self_value_def global_self_value_def)

lemma node_of_node_config: "node_of (node_config s) = state_node s"
  by (simp add: node_config_def state_node_def edge_events_def)

lemma states_config_table:
  "fromEntries (map (\<lambda>(k, n). (k, node_of n)) (states_config specs)) = state_table specs"
  by (simp add: states_config_def state_table_def comp_def node_of_node_config)

lemma states_config_SomeD:
  "fromEntries (states_config specs) k = Some n \<Longrightarrow> \<exists>s \<in> set specs. name s = k \<and> n = node_config s"
  by (auto simp: states_config_def dest!: fromEntries_SomeD)

lemma states_config_distinct:
  "distinct (map name specs) \<Longrightarrow> s \<in> set specs \<Longrightarrow>
   fromEntries (states_config specs) (name s) = Some (node_config s)"
  unfolding states_config_def
  by (rule fromEntries_distinct) (auto simp: comp_def)

lemma transitions_ok_node_config:
  assumes "\<And>t. \<not> truthy (terminal s) \<Longrightarrow> t \<in> set (to s) \<Longrightarrow> t \<noteq> [] \<Longrightarrow>
      path_free t \<and> t \<in> set (map name specs)"
  shows "transitions_ok (state_table specs) (node_config s)"
proof (cases "truthy (terminal s)")
  case True
  then show ?thesis by (simp add: node_config_def)
next
  case False
  have "\<not> isl (resolve_target (state_table specs) t)" if "t \<in> set (to s)" for t
  proof (cases "t = []")
    case True
    then show ?thesis by (simp add: resolve_target_def)
  next
    case nb: False
    from assms [OF False that nb] show ?thesis
      by (simp add: resolve_target_def state_table_None_iff)
  qed
  with False show ?thesis
    by (simp add: node_config_def list_all_iff)
qed

lemma createMachine_builds:
  assumes i: "i \<noteq> []" and k: "tbl [] = None"
    and t: "\<And>s t. s \<in> set specs \<Longrightarrow> \<not> truthy (terminal s) \<Longrightarrow> t \<in> set (to s) \<Longrightarrow>
      path_free t \<and> t \<in> set (map name specs)"
  shows "createMachine \<lparr>cfg_id = mid, cfg_context = c, cfg_initial = i,
             cfg_states = states_config specs, cfg_on = tbl\<rparr>
     = Inr \<lparr>machine_id = mid, context_data = c, initial = i,
            states = state_table specs, on = tbl\<rparr>"
proof -
  have "list_all (\<lambda>k. case fromEntries (states_config specs) k of
                        None \<Rightarrow> True
                      | Some n \<Rightarrow> transitions_ok (state_table specs) n)
          (map fst (states_config specs))"
    unfolding list_all_iff
  proof
    fix k
    show "case fromEntries (states_config specs) k of
            None \<Rightarrow> True | Some n \<Rightarrow> transitions_ok (state_table specs) n"
    proof (cases "fromEntries (states_config specs) k")
      case None
      then show ?thesis by simp
    next
      case (Some n)
      from states_config_SomeD [OF Some] obtain s where s: "s \<in> set specs" "n = node_config s"
        by auto
      from t [OF s(1)] have "transitions_ok (state_table specs) (node_config s)"
        by (intro transitions_ok_node_config) auto
      with Some s show ?thesis by simp
    qed
  qed
  with i k show ?thesis
    by (simp add: createMachine_def Let_def states_config_table)
qed

lemma createMachine_InrD:
  "createMachine \<lparr>cfg_id = mid, cfg_context = c, cfg_initial = i,
       cfg_states = states_config specs, cfg_on = tbl\<rparr> = Inr m \<Longrightarrow>
   m = \<lparr>machine_id = mid, context_data = c, initial = i, states = state_table specs, on = tbl\<rparr>"
  by (simp add: createMachine_def Let_def states_config_table split: if_splits)

lemma truthy_str_find_dup: "distinct names \<Longrightarrow> \<not> truthy_str (find_dup names)"
  by (simp add: truthy_str_def find_dup_None_iff [THEN iffD2])

lemma normalizeSpecs_Nil_iff: "normalizeSpecs specs = [] \<longleftrightarrow> specs = []"
  by (simp add: normalizeSpecs_def)

lemma hd_normalizeSpecs:
  "specs \<noteq> [] \<Longrightarrow> name (hd (normalizeSpecs specs)) = norm (name (hd specs))"
  by (cases specs) (simp_all add: normalizeSpecs_def)

lemma allowed_states_isl: "isl (allowed_states restricted e) \<Longrightarrow> e \<in> set object_prototype_keys"
  by (simp add: allowed_states_def split: option.splits if_splits)

lemma update_events_InrD:
  "update_events updates restricted = Inr tbl \<Longrightarrow> tbl = update_table updates restricted"
  by (simp add: update_events_def split: if_splits)

lemma update_events_key:
  assumes "update_events (Some u) restricted = Inr tbl" and "u e = Some f"
  shows "\<not> isl (allowed_states restricted e)"
proof
  assume a: "isl (allowed_states restricted e)"
  from allowed_states_isl [OF a] a assms show False
    by (auto simp: update_events_def list_ex_iff split: if_splits)
qed

lemma update_events_ok:
  "updates_ok updates restricted \<Longrightarrow>
   update_events updates restricted = Inr (update_table updates restricted)"
  by (cases updates) (auto simp: updates_ok_def update_events_def list_ex_iff list_all_iff)

lemma update_table_blank:
  "updates_ok updates restricted \<Longrightarrow> update_table updates restricted [] = None"
  by (cases updates) (simp_all add: updates_ok_def update_table_def)

lemma names_okD:
  assumes v: "valid_specs specs" and n: "names_ok specs"
    and s: "s \<in> set specs" "\<not> truthy (terminal s)" and t: "t \<in> set (to s)"
  shows "path_free t \<and> t \<in> set (map name specs)"
  using assms by (auto simp: valid_specs_def names_ok_def list_all_iff)

lemma createFlowMachineWithData_valid:
  assumes v: "valid_specs (normalizeSpecs inputSpecs)" and n: "names_ok (normalizeSpecs inputSpecs)"
    and u: "updates_ok updates restricted"
  shows "createFlowMachineWithData inputSpecs initialContext updates restricted mid =
      Inr \<lparr>machine_id = mid, context_data = initialContext,
           initial = name (hd (normalizeSpecs inputSpecs)),
           states = state_table (normalizeSpecs inputSpecs),
           on = update_table updates restricted\<rparr>"
proof -
  from n have i: "name (hd (normalizeSpecs inputSpecs)) \<noteq> []" by (simp add: names_ok_def)
  have cm: "createMachine \<lparr>cfg_id = mid, cfg_context = initialContext,
             cfg_initial = name (hd (normalizeSpecs inputSpecs)),
             cfg_states = states_config (normalizeSpecs inputSpecs),
             cfg_on = update_table updates restricted\<rparr>
     = Inr \<lparr>machine_id = mid, context_data = initialContext,
            initial = name (hd (normalizeSpecs inputSpecs)),
            states = state_table (normalizeSpecs inputSpecs),
            on = update_table updates restricted\<rparr>"
    by (rule createMachine_builds, rule i, rule update_table_blank [OF u], rule names_okD [OF v n])
  from v show ?thesis
    by (simp add: createFlowMachineWithData_def valid_specs_def Let_def truthy_str_find_dup
        dangling_Nil_iff [THEN iffD2] update_events_ok [OF u] cm)
qed

lemma createFlowMachine_valid:
  assumes v: "valid_specs specs" and n: "names_ok specs"
  shows "createFlowMachine specs mid =
      Inr (\<lparr>machine_id = mid, context_data = (), initial = name (hd specs),
            states = state_table specs, on = Map.empty\<rparr>, [])"
proof -
  from n have i: "name (hd specs) \<noteq> []" by (simp add: names_ok_def)
  have cm: "createMachine \<lparr>cfg_id = mid, cfg_context = (), cfg_initial = name (hd specs),
             cfg_states = states_config specs, cfg_on = Map.empty\<rparr>
     = Inr \<lparr>machine_id = mid, context_data = (), initial = name (hd specs),
            states = state_table specs, on = Map.empty\<rparr>"
    by (rule createMachine_builds, rule i, simp, rule names_okD [OF v n])
  from v show ?thesis
    by (simp add: createFlowMachine_def createFlowMachine_console_def valid_specs_def Let_def
        truthy_str_find_dup dangling_Nil_iff [THEN iffD2] cm)
qed

lemma makeFlowMachine_valid:
  assumes v: "valid_specs specs" and n: "names_ok specs"
  shows "makeFlowMachine specs mid =
      Inr (\<lparr>machine_id = mid, context_data = (), initial = name (hd specs),
            states = state_table specs, on = Map.empty\<rparr>, [])"
proof -
  from n have i: "name (hd specs) \<noteq> []" by (simp add: names_ok_def)
  have cm: "createMachine \<lparr>cfg_id = mid, cfg_context = (), cfg_initial = name (hd specs),
             cfg_states = states_config specs, cfg_on = Map.empty\<rparr>
     = Inr \<lparr>machine_id = mid, context_data = (), initial = name (hd specs),
            states = state_table specs, on = Map.empty\<rparr>"
    by (rule createMachine_builds, rule i, simp, rule names_okD [OF v n])
  from v show ?thesis
    by (simp add: makeFlowMachine_def makeFlowMachine_console_def valid_specs_def Let_def
        dangling_Nil_iff [THEN iffD2] cm)
qed

lemma createFlowMachineWithData_InrD:
  assumes "createFlowMachineWithData inputSpecs initialContext updates restricted mid = Inr m"
  shows "m = \<lparr>machine_id = mid, context_data = initialContext,
           initial = name (hd (normalizeSpecs inputSpecs)),
           states = state_table (normalizeSpecs inputSpecs),
           on = update_table updates restricted\<rparr>"
    and "update_events updates restricted = Inr (update_table updates restricted)"
proof -
  from assms obtain tbl where tbl: "update_events updates restricted = Inr tbl"
    and cm: "createMachine \<lparr>cfg_id = mid, cfg_context = initialContext,
                 cfg_initial = name (hd (normalizeSpecs inputSpecs)),
                 cfg_states = states_config (normalizeSpecs inputSpecs), cfg_on = tbl\<rparr> = Inr m"
    by (auto simp: createFlowMachineWithData_def Let_def split: if_splits sum.splits)
  from update_events_InrD [OF tbl] tbl
  show "update_events updates restricted = Inr (update_table updates restricted)" by simp
  from createMachine_InrD [OF cm] update_events_InrD [OF tbl]
  show "m = \<lparr>machine_id = mid, context_data = initialContext,
           initial = name (hd (normalizeSpecs inputSpecs)),
           states = state_table (normalizeSpecs inputSpecs),
           on = update_table updates restricted\<rparr>" by simp
qed

lemma built_states:
  "createFlowMachineWithData inputSpecs initialContext updates restricted mid = Inr m \<Longrightarrow>
   states m = state_table (normalizeSpecs inputSpecs)"
  by (drule createFlowMachineWithData_InrD(1)) simp

lemma built_on:
  "createFlowMachineWithData inputSpecs initialContext updates restricted mid = Inr m \<Longrightarrow>
   on m = update_table updates restricted"
  by (drule createFlowMachineWithData_InrD(1)) simp

lemma built_key:
  assumes "createFlowMachineWithData inputSpecs initialContext (Some u) restricted mid = Inr m"
    and "u e = Some f"
  shows "\<not> isl (allowed_states restricted e)"
  using update_events_key [OF createFlowMachineWithData_InrD(2) [OF assms(1)] assms(2)] .

lemma createFlowMachine_InrD:
  "createFlowMachine specs mid = Inr (m, out) \<Longrightarrow>
   specs \<noteq> [] \<and> states m = state_table specs \<and> on m = Map.empty
   \<and> out = createFlowMachine_console specs"
  by (auto simp: createFlowMachine_def split: if_splits sum.splits dest!: createMachine_InrD)

lemma makeFlowMachine_InrD:
  "makeFlowMachine specs mid = Inr (m, out) \<Longrightarrow>
   specs \<noteq> [] \<and> states m = state_table specs \<and> on m = Map.empty
   \<and> out = makeFlowMachine_console specs"
  by (auto simp: makeFlowMachine_def split: if_splits sum.splits dest!: createMachine_InrD)

lemma trim_simps: "norm ''Init'' = ''Init''" "norm ''Edit'' = ''Edit''" "norm ''Saved'' = ''Saved''"
  by (simp_all add: norm_def trim_def is_ws_def)

lemma normalize_scenario: "normalizeSpecs scenario_specs =
     [\<lparr>name = ''Init'', to = [''Edit''], terminal = Some False\<rparr>,
      \<lparr>name = ''Edit'', to = [''Saved''], terminal = Some False\<rparr>,
      \<lparr>name = ''Saved'', to = [], terminal = Some True\<rparr>]"
  by (simp add: normalizeSpecs_def scenario_specs_def trim_simps truthy_def)

lemma valid_scenario: "valid_specs scenario_specs" "valid_specs (normalizeSpecs scenario_specs)"
  unfolding normalize_scenario by (simp_all add: valid_specs_def scenario_specs_def)

lemma names_ok_scenario: "names_ok scenario_specs" "names_ok (normalizeSpecs scenario_specs)"
  unfolding normalize_scenario
  by (simp_all add: names_ok_def scenario_specs_def path_free_def truthy_def)

lemma updates_ok_scenario:
  "updates_ok (Some scenario_updates) res" "updates_ok (None :: (nat, nat) UpdateMap option) res"
  by (simp_all add: updates_ok_def scenario_updates_def object_prototype_keys_def)

lemma valid_specs_trimmed:
  assumes v: "valid_specs specs"
    and t: "list_all (\<lambda>s. norm (name s) = name s) specs"
  shows "valid_specs (normalizeSpecs specs)"
    and "name (hd (normalizeSpecs specs)) = name (hd specs)"
    and "names_ok specs \<Longrightarrow> names_ok (normalizeSpecs specs)"
proof -
  from t have names: "map name (normalizeSpecs specs) = map name specs"
    by (simp add: normalizeSpecs_def list_all_iff comp_def)
  from v have "list_all (\<lambda>s. list_all (\<lambda>t. t \<in> set (map name (normalizeSpecs specs))) (to s))
      (normalizeSpecs specs)"
    by (fastforce simp: valid_specs_def normalizeSpecs_def list_all_iff image_iff)
  with v names show "valid_specs (normalizeSpecs specs)"
    by (simp add: valid_specs_def normalizeSpecs_Nil_iff)
  from v have ne: "specs \<noteq> []" by (simp add: valid_specs_def)
  then have "name (hd (normalizeSpecs specs)) = hd (map name (normalizeSpecs specs))"
    by (simp add: hd_map normalizeSpecs_Nil_iff)
  also have "\<dots> = name (hd specs)"
    using ne by (simp add: names hd_map)
  finally show hd: "name (hd (normalizeSpecs specs)) = name (hd specs)" .
  assume n: "names_ok specs"
  have tr: "map norm (to s) = to s" if "s \<in> set specs" for s
  proof (rule map_idI)
    fix x assume "x \<in> set (to s)"
    with v that obtain s' where "s' \<in> set specs" "x = name s'"
      by (auto simp: valid_specs_def list_all_iff)
    with t show "norm x = x" by (auto simp: list_all_iff)
  qed
  from n have "list_all (\<lambda>s. truthy (terminal s) \<or> list_all path_free (to s)) (normalizeSpecs specs)"
    by (auto simp: names_ok_def normalizeSpecs_def list_all_iff tr truthy_def)
  with n hd show "names_ok (normalizeSpecs specs)"
    by (simp add: names_ok_def)
qed

section \<open>Construction\<close>

text \<open>C8. For the empty spec list every builder throws: the data-carrying builder
  (whose normalisation of the empty list is the empty list), the plain builder and the
  UI-free builder all raise the error \<open>specs cannot be empty\<close>.\<close>

theorem C8_empty_specs_throw:
  "createFlowMachineWithData [] initialContext updates restricted mid
     = Inl (Error ''specs cannot be empty'')
   \<and> createFlowMachine [] mid = Inl (Error ''specs cannot be empty'')
   \<and> makeFlowMachine [] mid = Inl (Error ''specs cannot be empty'')"
  by (simp add: createFlowMachineWithData_def createFlowMachine_def makeFlowMachine_def
      normalizeSpecs_def)

text \<open>C2. For a valid spec set (not empty, names unique, every target declared) whose
  names \<open>createMachine\<close> takes as names (the first name is not empty; the targets of the
  specs that are not terminal hold no dot and no backslash and do not begin with \<open>#\<close>)
  construction succeeds and the initial state is the name of the first spec.  The
  data-carrying builder validates the specs after trimming their names and targets, so
  validity is that of the trimmed list and the initial state is the trimmed name of the
  first spec; where the names carry no surrounding white space, as the data model has
  them, that is the validity of the list itself and the name of its first spec.  For
  the data-carrying builder the update map must not have the empty string as a key, nor
  a key that every object inherits unless the restriction object has an entry of its
  own for it.  The plain builders take the specs as they are, and log nothing.\<close>

theorem C2_valid_specs_build:
  "(valid_specs (normalizeSpecs inputSpecs) \<and> names_ok (normalizeSpecs inputSpecs)
      \<and> updates_ok updates restricted \<longrightarrow>
      createFlowMachineWithData inputSpecs initialContext updates restricted mid =
        Inr \<lparr>machine_id = mid, context_data = initialContext,
             initial = name (hd (normalizeSpecs inputSpecs)),
             states = state_table (normalizeSpecs inputSpecs),
             on = update_table updates restricted\<rparr>
      \<and> name (hd (normalizeSpecs inputSpecs)) = norm (name (hd inputSpecs)))
   \<and> (valid_specs specs \<and> list_all (\<lambda>s. norm (name s) = name s) specs \<and> names_ok specs
      \<and> updates_ok updates restricted \<longrightarrow>
      createFlowMachineWithData specs initialContext updates restricted mid =
        Inr \<lparr>machine_id = mid, context_data = initialContext,
             initial = name (hd specs),
             states = state_table (normalizeSpecs specs),
             on = update_table updates restricted\<rparr>)
   \<and> (valid_specs specs \<and> names_ok specs \<longrightarrow>
      createFlowMachine specs mid =
        Inr (\<lparr>machine_id = mid, context_data = (), initial = name (hd specs),
              states = state_table specs, on = Map.empty\<rparr>, [])
      \<and> makeFlowMachine specs mid =
        Inr (\<lparr>machine_id = mid, context_data = (), initial = name (hd specs),
              states = state_table specs, on = Map.empty\<rparr>, []))"
proof (intro conjI impI)
  assume a: "valid_specs specs \<and> list_all (\<lambda>s. norm (name s) = name s) specs \<and> names_ok specs
      \<and> updates_ok updates restricted"
  then have "valid_specs (normalizeSpecs specs)"
    "name (hd (normalizeSpecs specs)) = name (hd specs)"
    "names_ok (normalizeSpecs specs)"
    by (simp_all add: valid_specs_trimmed)
  with a show "createFlowMachineWithData specs initialContext updates restricted mid =
        Inr \<lparr>machine_id = mid, context_data = initialContext,
             initial = name (hd specs),
             states = state_table (normalizeSpecs specs),
             on = update_table updates restricted\<rparr>"
    by (simp add: createFlowMachineWithData_valid)
qed (simp_all add: createFlowMachineWithData_valid createFlowMachine_valid makeFlowMachine_valid
    hd_normalizeSpecs valid_specs_def [of "normalizeSpecs inputSpecs"] normalizeSpecs_Nil_iff)

text \<open>C2 at the scenario of the specification.\<close>

theorem C2_witness:
  "valid_specs (normalizeSpecs scenario_specs) \<and> names_ok (normalizeSpecs scenario_specs)
   \<and> valid_specs scenario_specs \<and> names_ok scenario_specs
   \<and> list_all (\<lambda>s. norm (name s) = name s) scenario_specs
   \<and> updates_ok (Some scenario_updates) (Some scenario_restricted)
   \<and> initial (projr (createFlowMachineWithData scenario_specs (0::nat)
          (Some scenario_updates) (Some scenario_restricted) ''runtimeFlow'')) = ''Init''
   \<and> initial (fst (projr (createFlowMachine scenario_specs ''runtimeFlow''
          :: error + ((unit, unit) machine \<times> console list)))) = ''Init''
   \<and> initial (fst (projr (makeFlowMachine scenario_specs ''runtimeFlow''
          :: error + ((unit, unit) machine \<times> console list)))) = ''Init''
   \<and> valid_specs (normalizeSpecs padded_specs) \<and> names_ok (normalizeSpecs padded_specs)
   \<and> name (hd padded_specs) = '' Init ''
   \<and> initial (projr (createFlowMachineWithData padded_specs (0::nat)
          (Some scenario_updates) (Some scenario_restricted) ''runtimeFlow'')) = ''Init''"
proof -
  note c2 = C2_valid_specs_build [of scenario_specs "Some scenario_updates"
      "Some scenario_restricted" _ "''runtimeFlow''" scenario_specs]
  have tr: "list_all (\<lambda>s. norm (name s) = name s) scenario_specs"
    by (simp add: scenario_specs_def trim_simps)
  have hd2: "name (hd scenario_specs) = ''Init''"
    by (simp add: scenario_specs_def)
  have d: "initial (projr (createFlowMachineWithData scenario_specs (0::nat)
          (Some scenario_updates) (Some scenario_restricted) ''runtimeFlow'')) = ''Init''"
    using valid_scenario(1) names_ok_scenario(1) updates_ok_scenario(1) tr
    by (simp add: c2 [THEN conjunct2, THEN conjunct1] hd2)
  have p: "initial (fst (projr (createFlowMachine scenario_specs ''runtimeFlow''
          :: error + ((unit, unit) machine \<times> console list)))) = ''Init''"
    "initial (fst (projr (makeFlowMachine scenario_specs ''runtimeFlow''
          :: error + ((unit, unit) machine \<times> console list)))) = ''Init''"
    using valid_scenario(1) names_ok_scenario(1)
    by (simp_all add: c2 [THEN conjunct2, THEN conjunct2] hd2)
  have np: "normalizeSpecs padded_specs = normalizeSpecs scenario_specs"
    by (simp add: normalize_scenario)
      (simp add: padded_specs_def normalizeSpecs_def norm_def trim_def is_ws_def truthy_def)
  have hp: "name (hd padded_specs) = '' Init ''" "norm '' Init '' = ''Init''"
    by (simp_all add: padded_specs_def norm_def trim_def is_ws_def)
  note c2p = C2_valid_specs_build [of padded_specs "Some scenario_updates"
      "Some scenario_restricted" 0 "''runtimeFlow''" scenario_specs, THEN conjunct1, THEN mp,
      OF conjI, OF _ conjI]
  have dp: "initial (projr (createFlowMachineWithData padded_specs (0::nat)
          (Some scenario_updates) (Some scenario_restricted) ''runtimeFlow'')) = ''Init''"
    using c2p valid_scenario(2) names_ok_scenario(2) updates_ok_scenario(1)
    by (simp add: np hp)
  from valid_scenario names_ok_scenario updates_ok_scenario(1) tr d p dp hp(1) show ?thesis
    by (simp only: np simp_thms)
qed

lemma norm_Nil: "norm [] = []"
  by (simp add: norm_def trim_def)

lemma norm_examples:
  "norm ''a.b'' = ''a.b''" "norm ''c'' = ''c''" "norm ''A'' = ''A''" "norm ''#B'' = ''#B''"
  "norm ''X'' = ''X''" "norm ''B'' = ''B''"
  by (simp_all add: norm_def trim_def is_ws_def)

lemmas build_eval = createFlowMachineWithData_def createFlowMachine_def makeFlowMachine_def
  createFlowMachine_console_def makeFlowMachine_console_def
  normalizeSpecs_def norm_examples norm_Nil trim_simps truthy_def truthy_str_def
  find_dup_def find_idx_def dangling_def has_def byName_def fromEntries_def
  update_events_def update_table_def allowed_states_def object_prototype_keys_def
  createMachine_def states_config_def node_config_def resolve_target_def path_free_def
  Let_def

text \<open>C2 does not hold for every valid spec set.  A set whose names hold a dot, a set
  with a name that begins with \<open>#\<close>, and a set whose first name is empty are valid,
  yet \<open>createMachine\<close> throws for each of them in all three builders.  For the scenario
  with the update key \<open>constructor\<close> and an empty restriction object the data-carrying
  builder raises a type error, and with the empty string as update key \<open>createMachine\<close>
  throws.\<close>

theorem C2_counterexample:
  "valid_specs dotted_specs \<and> valid_specs (normalizeSpecs dotted_specs)
   \<and> createFlowMachineWithData dotted_specs (0::nat) (None :: (nat, nat) UpdateMap option)
        None ''runtimeFlow'' = Inl XStateError
   \<and> (createFlowMachine dotted_specs ''runtimeFlow''
        :: error + ((unit, nat) machine \<times> console list)) = Inl XStateError
   \<and> (makeFlowMachine dotted_specs ''runtimeFlow''
        :: error + ((unit, nat) machine \<times> console list)) = Inl XStateError
   \<and> valid_specs hash_specs \<and> valid_specs (normalizeSpecs hash_specs)
   \<and> createFlowMachineWithData hash_specs (0::nat) (None :: (nat, nat) UpdateMap option)
        None ''runtimeFlow'' = Inl XStateError
   \<and> (createFlowMachine hash_specs ''runtimeFlow''
        :: error + ((unit, nat) machine \<times> console list)) = Inl XStateError
   \<and> (makeFlowMachine hash_specs ''runtimeFlow''
        :: error + ((unit, nat) machine \<times> console list)) = Inl XStateError
   \<and> valid_specs blank_first_specs \<and> valid_specs (normalizeSpecs blank_first_specs)
   \<and> createFlowMachineWithData blank_first_specs (0::nat) (None :: (nat, nat) UpdateMap option)
        None ''runtimeFlow'' = Inl XStateError
   \<and> (createFlowMachine blank_first_specs ''runtimeFlow''
        :: error + ((unit, nat) machine \<times> console list)) = Inl XStateError
   \<and> (makeFlowMachine blank_first_specs ''runtimeFlow''
        :: error + ((unit, nat) machine \<times> console list)) = Inl XStateError
   \<and> valid_specs (normalizeSpecs scenario_specs)
   \<and> createFlowMachineWithData scenario_specs 0 (Some inherited_updates) (Some Map.empty)
        ''runtimeFlow'' = Inl TypeError
   \<and> createFlowMachineWithData scenario_specs 0 (Some blank_key_updates) None
        ''runtimeFlow'' = Inl XStateError"
proof -
  have v: "valid_specs dotted_specs" "valid_specs (normalizeSpecs dotted_specs)"
    "valid_specs hash_specs" "valid_specs (normalizeSpecs hash_specs)"
    "valid_specs blank_first_specs" "valid_specs (normalizeSpecs blank_first_specs)"
    by (simp_all add: valid_specs_def dotted_specs_def hash_specs_def blank_first_specs_def
        normalizeSpecs_def norm_examples norm_Nil)
  have d: "createFlowMachineWithData dotted_specs (0::nat) (None :: (nat, nat) UpdateMap option)
        None ''runtimeFlow'' = Inl XStateError"
    "(createFlowMachine dotted_specs ''runtimeFlow''
        :: error + ((unit, nat) machine \<times> console list)) = Inl XStateError"
    "(makeFlowMachine dotted_specs ''runtimeFlow''
        :: error + ((unit, nat) machine \<times> console list)) = Inl XStateError"
    by (simp_all add: dotted_specs_def build_eval)
  have h: "createFlowMachineWithData hash_specs (0::nat) (None :: (nat, nat) UpdateMap option)
        None ''runtimeFlow'' = Inl XStateError"
    "(createFlowMachine hash_specs ''runtimeFlow''
        :: error + ((unit, nat) machine \<times> console list)) = Inl XStateError"
    "(makeFlowMachine hash_specs ''runtimeFlow''
        :: error + ((unit, nat) machine \<times> console list)) = Inl XStateError"
    by (simp_all add: hash_specs_def build_eval)
  have b: "createFlowMachineWithData blank_first_specs (0::nat) (None :: (nat, nat) UpdateMap option)
        None ''runtimeFlow'' = Inl XStateError"
    "(createFlowMachine blank_first_specs ''runtimeFlow''
        :: error + ((unit, nat) machine \<times> console list)) = Inl XStateError"
    "(makeFlowMachine blank_first_specs ''runtimeFlow''
        :: error + ((unit, nat) machine \<times> console list)) = Inl XStateError"
    by (simp_all add: blank_first_specs_def build_eval)
  have c: "createFlowMachineWithData scenario_specs 0 (Some inherited_updates) (Some Map.empty)
        ''runtimeFlow'' = Inl TypeError"
    by (simp add: scenario_specs_def inherited_updates_def build_eval)
  have k: "createFlowMachineWithData scenario_specs 0 (Some blank_key_updates) None
        ''runtimeFlow'' = Inl XStateError"
    by (simp add: scenario_specs_def blank_key_updates_def build_eval)
  from v d h b c k valid_scenario(2) show ?thesis by (simp only: simp_thms)
qed

section \<open>Edge events\<close>

lemma exec_action_value:
  "snap_value (fst (exec_action v a p)) = snap_value (fst p)"
  by (cases a; cases p) (simp_all split: sum.splits)

lemma fold_exec_action_value:
  "snap_value (fst (fold (exec_action v) as p)) = snap_value (fst p)"
  by (induction as arbitrary: p) (simp_all add: exec_action_value)

lemma root_next_value: "snap_value (fst (root_next m snap ev)) = snap_value snap"
  by (simp add: root_next_def fold_exec_action_value split: option.splits sum.splits)












lemma scenario_machine_built:
  "scenario_machine res = Inr \<lparr>machine_id = ''runtimeFlow'', context_data = 0, initial = ''Init'',
       states = state_table (normalizeSpecs scenario_specs),
       on = update_table (Some scenario_updates) res\<rparr>"
  unfolding scenario_machine_def
    createFlowMachineWithData_valid [OF valid_scenario(2) names_ok_scenario(2) updates_ok_scenario(1)]
  by (simp add: normalize_scenario)

lemma scenario_keys:
  "scenario_updates ''SET_X'' = Some set_x" "scenario_updates ''TO_Edit'' = Some set_x"
  "scenario_updates ''TO_Saved'' = None" "scenario_updates ''*'' = None"
  "scenario_updates ''TO_Saved.*'' = None"
  by (simp_all add: scenario_updates_def)





section \<open>Update events of the data-carrying builder\<close>

lemma send_root:
  "snap_error snap = None \<Longrightarrow> \<not> final_state m (snap_value snap) \<Longrightarrow>
   \<not> edge_event m (snap_value snap) (event_type ev) \<Longrightarrow>
   send m snap ev = root_next m snap ev"
  by (auto simp: send_def final_state_def edge_event_def split: option.splits StateNode.splits)

lemma send_not_edge_value:
  "\<not> edge_event m (snap_value snap) (event_type ev) \<Longrightarrow>
   snap_value (fst (send m snap ev)) = snap_value snap"
  by (auto simp: send_def edge_event_def root_next_value split: option.splits StateNode.splits)

lemma root_next_unguarded:
  "on m e = Some [\<lparr>guard = None, actions = [assign f]\<rparr>] \<Longrightarrow> f d v = Inr d' \<Longrightarrow>
   root_next m \<lparr>snap_value = cur, snap_data = d, snap_error = None\<rparr> \<lparr>event_type = e, event_value = v\<rparr>
     = (\<lparr>snap_value = cur, snap_data = d', snap_error = None\<rparr>, [])"
  by (simp add: root_next_def get_candidates_def)

lemma root_next_guard_raises:
  "on m e = Some (\<lparr>guard = Some g, actions = as\<rparr> # ts) \<Longrightarrow> g d v = Inl err \<Longrightarrow>
   root_next m \<lparr>snap_value = cur, snap_data = d, snap_error = None\<rparr> \<lparr>event_type = e, event_value = v\<rparr>
     = (\<lparr>snap_value = cur, snap_data = d, snap_error = Some ()\<rparr>, [])"
  by (simp add: root_next_def get_candidates_def)

lemma update_table_unrestricted:
  "updates e = Some updater \<Longrightarrow> allowed_states restricted e = Inr [] \<Longrightarrow>
   update_table (Some updates) restricted e
     = Some [\<lparr>guard = None, actions = [assign (\<lambda>d v. Inr (updater d v []))]\<rparr>]"
  by (simp add: update_table_def update_handler_def)

lemma update_table_restricted:
  "updates e = Some updater \<Longrightarrow> allowed_states restricted e = Inr allowed \<Longrightarrow> allowed \<noteq> [] \<Longrightarrow>
   update_table (Some updates) restricted e
     = Some [\<lparr>guard = Some (\<lambda>d v. case guard_self_value of
                                     Inl err \<Rightarrow> Inl err
                                   | Inr cur \<Rightarrow> Inr (cur \<in> set allowed)),
              actions = [assign (\<lambda>d v. case global_self_value of
                                          Inl err \<Rightarrow> Inl err
                                        | Inr cur \<Rightarrow> Inr (updater d v cur))]\<rparr>,
             \<lparr>guard = None,
              actions = [warn (''[FlowRunnerWithData] '' @ quoted e @ '' ignored in this state'')]\<rparr>]"
  by (simp add: update_table_def update_handler_def)

lemma update_events_cong:
  assumes "\<And>e. allowed_states res1 e = allowed_states res2 e"
  shows "update_events updates res1 = update_events updates res2"
proof -
  have eq: "allowed_states res1 = allowed_states res2"
    by (rule ext) (rule assms)
  have "update_table updates res1 = update_table updates res2"
    unfolding update_table_def eq by (rule refl)
  then show ?thesis
    unfolding update_events_def eq by simp
qed

lemma scenario_table:
  "state_table (normalizeSpecs scenario_specs) ''Init'' = Some (On [''TO_Edit'' \<mapsto> ''Edit''])"
  "state_table (normalizeSpecs scenario_specs) ''Edit'' = Some (On [''TO_Saved'' \<mapsto> ''Saved''])"
  "state_table (normalizeSpecs scenario_specs) ''Saved'' = Some Final"
  by (simp_all add: normalize_scenario state_table_def fromEntries_def state_node_def truthy_def
      edge_events_def)

lemma scenario_status:
  "\<not> isl (scenario_machine res)"
  "\<not> final_state (projr (scenario_machine res)) ''Init''"
  "\<not> final_state (projr (scenario_machine res)) ''Edit''"
  "final_state (projr (scenario_machine res)) ''Saved''"
  "edge_event (projr (scenario_machine res)) ''Init'' ''TO_Edit''"
  "\<not> edge_event (projr (scenario_machine res)) ''Init'' ''SET_X''"
  "\<not> edge_event (projr (scenario_machine res)) ''Edit'' ''SET_X''"
  by (simp_all add: scenario_machine_built final_state_def edge_event_def scenario_table)

lemmas scenario_eval = scenario_machine_built send_def root_next_def get_candidates_def
  scenario_table update_table_def update_handler_def allowed_states_def object_prototype_keys_def
  scenario_keys set_x_def trim_simps quoted_def norm_Nil

text \<open>C4. For an UpdateMap entry with no RestrictionMap entry, firing its event applies
  the updater to the previous data, the event value and the empty string (not the
  current state name) and replaces the data with the result; the state stays and
  nothing is logged.  This holds in every current state that is not final and whose own
  table has no edge event of the same name.\<close>

theorem C4_unrestricted_update:
  assumes built: "createFlowMachineWithData inputSpecs initialContext (Some updates) restricted mid = Inr m"
    and upd: "updates e = Some updater"
    and unres: "(case restricted of None \<Rightarrow> None | Some r \<Rightarrow> r e) = None"
    and act: "\<not> final_state m cur" "\<not> edge_event m cur e"
  shows "send m \<lparr>snap_value = cur, snap_data = d, snap_error = None\<rparr> \<lparr>event_type = e, event_value = v\<rparr>
      = (\<lparr>snap_value = cur, snap_data = updater d v '''', snap_error = None\<rparr>, [])"
proof -
  from built_key [OF built upd] unres have "allowed_states restricted e = Inr []"
    by (simp add: allowed_states_def split: option.splits if_splits)
  with upd built_on [OF built]
  have "on m e = Some [\<lparr>guard = None, actions = [assign (\<lambda>d v. Inr (updater d v []))]\<rparr>]"
    by (simp add: update_table_unrestricted)
  from root_next_unguarded [OF this refl] act show ?thesis
    by (simp add: send_root)
qed

text \<open>C4 at the scenario: \<open>SET_X\<close> with value 5 in state Edit.\<close>

theorem C4_witness:
  "\<not> isl (scenario_machine None) \<and> scenario_updates ''SET_X'' = Some set_x
   \<and> \<not> final_state (projr (scenario_machine None)) ''Edit''
   \<and> \<not> edge_event (projr (scenario_machine None)) ''Edit'' ''SET_X''
   \<and> send (projr (scenario_machine None)) \<lparr>snap_value = ''Edit'', snap_data = 0, snap_error = None\<rparr>
        \<lparr>event_type = ''SET_X'', event_value = 5\<rparr>
      = (\<lparr>snap_value = ''Edit'', snap_data = 5, snap_error = None\<rparr>, [])"
proof -
  have b: "createFlowMachineWithData scenario_specs 0 (Some scenario_updates) None ''runtimeFlow''
      = Inr (projr (scenario_machine None))"
    by (simp add: scenario_machine_built scenario_machine_def [symmetric])
  from C4_unrestricted_update [OF b scenario_keys(1) _ scenario_status(3) scenario_status(7), of 0 5]
  have "send (projr (scenario_machine None)) \<lparr>snap_value = ''Edit'', snap_data = 0, snap_error = None\<rparr>
        \<lparr>event_type = ''SET_X'', event_value = 5\<rparr>
      = (\<lparr>snap_value = ''Edit'', snap_data = 5, snap_error = None\<rparr>, [])"
    by (simp add: set_x_def)
  with scenario_status scenario_keys show ?thesis by simp
qed

text \<open>C4 does not hold in every state.  In Init the key \<open>TO_Edit\<close> of the update map is
  taken as the edge event to Edit, and in the final state Saved the event \<open>SET_X\<close> is
  not taken at all: in both cases the data stays 0 although the updater returns 5.\<close>

theorem C4_counterexample:
  "\<not> isl (scenario_machine None)
   \<and> scenario_updates ''TO_Edit'' = Some set_x \<and> scenario_updates ''SET_X'' = Some set_x
   \<and> set_x 0 5 '''' = 5
   \<and> send (projr (scenario_machine None)) \<lparr>snap_value = ''Init'', snap_data = 0, snap_error = None\<rparr>
        \<lparr>event_type = ''TO_Edit'', event_value = 5\<rparr>
      = (\<lparr>snap_value = ''Edit'', snap_data = 0, snap_error = None\<rparr>, [])
   \<and> send (projr (scenario_machine None)) \<lparr>snap_value = ''Saved'', snap_data = 0, snap_error = None\<rparr>
        \<lparr>event_type = ''SET_X'', event_value = 5\<rparr>
      = (\<lparr>snap_value = ''Saved'', snap_data = 0, snap_error = None\<rparr>, [])"
  by (simp add: scenario_eval)

text \<open>C3. For an UpdateMap entry whose RestrictionMap entry is not empty, firing its
  event raises a type error in the guard, whether the current state is in the allowed
  list or not: the guard reads \<open>self\<close> from an argument that has none.  The actor is
  left in its error status with the data it had; the updater is not applied and no
  warning is logged.  This is so in every current state that is not final and whose own
  table has no edge event of the same name.\<close>

theorem C3_restricted_update_raises:
  assumes built: "createFlowMachineWithData inputSpecs initialContext (Some updates) (Some r) mid = Inr m"
    and upd: "updates e = Some updater"
    and res: "r e = Some allowed" "allowed \<noteq> []"
    and act: "\<not> final_state m cur" "\<not> edge_event m cur e"
  shows "send m \<lparr>snap_value = cur, snap_data = d, snap_error = None\<rparr> \<lparr>event_type = e, event_value = v\<rparr>
      = (\<lparr>snap_value = cur, snap_data = d, snap_error = Some ()\<rparr>, [])"
proof -
  from res have a: "allowed_states (Some r) e = Inr (map norm allowed)" "map norm allowed \<noteq> []"
    by (simp_all add: allowed_states_def)
  from update_table_restricted [of updates e updater "Some r", OF upd a] built_on [OF built]
  have "on m e = Some (\<lparr>guard = Some (\<lambda>d v. case guard_self_value of
                                     Inl err \<Rightarrow> Inl err
                                   | Inr cur \<Rightarrow> Inr (cur \<in> set (map norm allowed))),
              actions = [assign (\<lambda>d v. case global_self_value of
                                          Inl err \<Rightarrow> Inl err
                                        | Inr cur \<Rightarrow> Inr (updater d v cur))]\<rparr> #
             [\<lparr>guard = None,
              actions = [warn (''[FlowRunnerWithData] '' @ quoted e @ '' ignored in this state'')]\<rparr>])"
    by simp
  then have "root_next m \<lparr>snap_value = cur, snap_data = d, snap_error = None\<rparr>
        \<lparr>event_type = e, event_value = v\<rparr>
      = (\<lparr>snap_value = cur, snap_data = d, snap_error = Some ()\<rparr>, [])"
    by (rule root_next_guard_raises) (simp add: guard_self_value_def)
  with act show ?thesis
    by (simp add: send_root)
qed

text \<open>C3 at the scenario, with \<open>SET_X\<close> restricted to Edit: fired in Edit, which is
  allowed, the event does not replace the data 0 by 5; fired in Init, which is not
  allowed, it logs no warning; both times the actor ends in its error status.\<close>

theorem C3_witness:
  "\<not> isl (scenario_machine (Some scenario_restricted))
   \<and> scenario_updates ''SET_X'' = Some set_x
   \<and> scenario_restricted ''SET_X'' = Some [''Edit'']
   \<and> set_x 0 5 ''Edit'' = 5
   \<and> \<not> final_state (projr (scenario_machine (Some scenario_restricted))) ''Edit''
   \<and> \<not> edge_event (projr (scenario_machine (Some scenario_restricted))) ''Edit'' ''SET_X''
   \<and> \<not> final_state (projr (scenario_machine (Some scenario_restricted))) ''Init''
   \<and> \<not> edge_event (projr (scenario_machine (Some scenario_restricted))) ''Init'' ''SET_X''
   \<and> send (projr (scenario_machine (Some scenario_restricted)))
        \<lparr>snap_value = ''Edit'', snap_data = 0, snap_error = None\<rparr>
        \<lparr>event_type = ''SET_X'', event_value = 5\<rparr>
      = (\<lparr>snap_value = ''Edit'', snap_data = 0, snap_error = Some ()\<rparr>, [])
   \<and> send (projr (scenario_machine (Some scenario_restricted)))
        \<lparr>snap_value = ''Init'', snap_data = 0, snap_error = None\<rparr>
        \<lparr>event_type = ''SET_X'', event_value = 5\<rparr>
      = (\<lparr>snap_value = ''Init'', snap_data = 0, snap_error = Some ()\<rparr>, [])"
proof -
  have b: "createFlowMachineWithData scenario_specs 0 (Some scenario_updates)
      (Some scenario_restricted) ''runtimeFlow''
      = Inr (projr (scenario_machine (Some scenario_restricted)))"
    by (simp add: scenario_machine_built scenario_machine_def [symmetric])
  have r: "scenario_restricted ''SET_X'' = Some [''Edit'']" "[''Edit''] \<noteq> []"
    by (simp_all add: scenario_restricted_def)
  have x: "set_x 0 5 ''Edit'' = 5" by (simp add: set_x_def)
  note c3 = C3_restricted_update_raises [OF b scenario_keys(1) r]
  from c3 [OF scenario_status(3) scenario_status(7), of 0 5]
    c3 [OF scenario_status(2) scenario_status(6), of 0 5]
    r x scenario_status scenario_keys
  show ?thesis by simp
qed

text \<open>C9. Firing an update event (a key of the UpdateMap, restricted or not, with any
  value) leaves the current state as it is, in every state whose own table has no edge
  event of the same name.\<close>

theorem C9_update_keeps_state:
  assumes built: "createFlowMachineWithData inputSpecs initialContext (Some updates) restricted mid = Inr m"
    and upd: "updates (event_type ev) = Some updater"
    and act: "\<not> edge_event m (snap_value snap) (event_type ev)"
  shows "snap_value (fst (send m snap ev)) = snap_value snap"
  using act by (rule send_not_edge_value)

text \<open>C9 at the scenario: \<open>SET_X\<close> fired in Init.\<close>

theorem C9_witness:
  "\<not> isl (scenario_machine None) \<and> scenario_updates ''SET_X'' = Some set_x
   \<and> \<not> edge_event (projr (scenario_machine None)) ''Init'' ''SET_X''
   \<and> snap_value (fst (send (projr (scenario_machine None)) \<lparr>snap_value = ''Init'', snap_data = 0, snap_error = None\<rparr>
        \<lparr>event_type = ''SET_X'', event_value = 5\<rparr>)) = ''Init''"
proof -
  have b: "createFlowMachineWithData scenario_specs 0 (Some scenario_updates) None ''runtimeFlow''
      = Inr (projr (scenario_machine None))"
    by (simp add: scenario_machine_built scenario_machine_def [symmetric])
  from C9_update_keeps_state [OF b, of "\<lparr>event_type = ''SET_X'', event_value = 5\<rparr>" set_x
      "\<lparr>snap_value = ''Init'', snap_data = 0, snap_error = None\<rparr>"] scenario_status(6) [of None] scenario_keys(1)
  have "snap_value (fst (send (projr (scenario_machine None)) \<lparr>snap_value = ''Init'', snap_data = 0, snap_error = None\<rparr>
        \<lparr>event_type = ''SET_X'', event_value = 5\<rparr>)) = ''Init''"
    by simp
  with scenario_status scenario_keys show ?thesis by simp
qed

text \<open>C9 does not hold for every key of the UpdateMap: the key \<open>TO_Edit\<close>, fired in
  Init, moves the current state to Edit.\<close>

theorem C9_counterexample:
  "\<not> isl (scenario_machine None) \<and> scenario_updates ''TO_Edit'' = Some set_x
   \<and> snap_value (fst (send (projr (scenario_machine None)) \<lparr>snap_value = ''Init'', snap_data = 0, snap_error = None\<rparr>
        \<lparr>event_type = ''TO_Edit'', event_value = 5\<rparr>)) = ''Edit''
   \<and> ''Edit'' \<noteq> ''Init''"
  by (simp add: scenario_eval)

lemma inherited_built:
  "createFlowMachineWithData scenario_specs 0 (Some inherited_updates)
      (Some [''constructor'' \<mapsto> []]) ''runtimeFlow''
     = Inr \<lparr>machine_id = ''runtimeFlow'', context_data = 0, initial = ''Init'',
            states = state_table (normalizeSpecs scenario_specs),
            on = update_table (Some inherited_updates) (Some [''constructor'' \<mapsto> []])\<rparr>"
proof -
  have "updates_ok (Some inherited_updates) (Some [''constructor'' \<mapsto> []])"
    by (simp add: updates_ok_def inherited_updates_def object_prototype_keys_def
        allowed_states_def)
  from createFlowMachineWithData_valid [OF valid_scenario(2) names_ok_scenario(2) this]
  show ?thesis by (simp add: normalize_scenario)
qed

text \<open>C10. A RestrictionMap entry that is the empty list is treated exactly like no
  entry.  Unless the event type is the name of a property that every object inherits,
  the builder returns the same result as without the entry.  Firing the event applies
  the updater with the empty string as state argument, in every current state that is
  not final and whose own table has no edge event of the same name.\<close>

theorem C10_empty_restriction:
  "(r e = Some [] \<and> e \<notin> set object_prototype_keys \<longrightarrow>
      createFlowMachineWithData inputSpecs initialContext updates (Some r) mid
        = createFlowMachineWithData inputSpecs initialContext updates (Some (r(e := None))) mid)
   \<and> (r e = Some [] \<and> u e = Some updater
        \<and> createFlowMachineWithData inputSpecs initialContext (Some u) (Some r) mid = Inr m
        \<and> \<not> final_state m cur \<and> \<not> edge_event m cur e \<longrightarrow>
      send m \<lparr>snap_value = cur, snap_data = d, snap_error = None\<rparr> \<lparr>event_type = e, event_value = v\<rparr>
        = (\<lparr>snap_value = cur, snap_data = updater d v '''', snap_error = None\<rparr>, []))"
proof (intro conjI impI)
  assume "r e = Some [] \<and> e \<notin> set object_prototype_keys"
  then have e: "r e = Some []" and n: "e \<notin> set object_prototype_keys" by simp_all
  have "allowed_states (Some r) e' = allowed_states (Some (r(e := None))) e'" for e'
    using e n by (simp add: allowed_states_def)
  then have "update_events updates (Some r) = update_events updates (Some (r(e := None)))"
    by (rule update_events_cong)
  then show "createFlowMachineWithData inputSpecs initialContext updates (Some r) mid
        = createFlowMachineWithData inputSpecs initialContext updates (Some (r(e := None))) mid"
    by (simp add: createFlowMachineWithData_def Let_def)
next
  assume a: "r e = Some [] \<and> u e = Some updater
        \<and> createFlowMachineWithData inputSpecs initialContext (Some u) (Some r) mid = Inr m
        \<and> \<not> final_state m cur \<and> \<not> edge_event m cur e"
  then have e: "r e = Some []" and upd: "u e = Some updater"
    and built: "createFlowMachineWithData inputSpecs initialContext (Some u) (Some r) mid = Inr m"
    and act: "\<not> final_state m cur" "\<not> edge_event m cur e"
    by simp_all
  from e have "allowed_states (Some r) e = Inr []" by (simp add: allowed_states_def)
  with upd built_on [OF built]
  have "on m e = Some [\<lparr>guard = None, actions = [assign (\<lambda>d v. Inr (updater d v []))]\<rparr>]"
    by (simp add: update_table_unrestricted)
  from root_next_unguarded [OF this refl] act
  show "send m \<lparr>snap_value = cur, snap_data = d, snap_error = None\<rparr> \<lparr>event_type = e, event_value = v\<rparr>
        = (\<lparr>snap_value = cur, snap_data = updater d v '''', snap_error = None\<rparr>, [])"
    by (simp add: send_root)
qed

text \<open>C10 at the scenario: \<open>SET_X\<close> with the empty list as restriction, fired in Init.\<close>

theorem C10_witness:
  "[''SET_X'' \<mapsto> []] ''SET_X'' = Some ([] :: StateName list)
   \<and> ''SET_X'' \<notin> set object_prototype_keys
   \<and> scenario_updates ''SET_X'' = Some set_x
   \<and> \<not> isl (scenario_machine (Some [''SET_X'' \<mapsto> []]))
   \<and> \<not> final_state (projr (scenario_machine (Some [''SET_X'' \<mapsto> []]))) ''Init''
   \<and> \<not> edge_event (projr (scenario_machine (Some [''SET_X'' \<mapsto> []]))) ''Init'' ''SET_X''
   \<and> scenario_machine (Some [''SET_X'' \<mapsto> []]) = scenario_machine (Some Map.empty)
   \<and> send (projr (scenario_machine (Some [''SET_X'' \<mapsto> []])))
        \<lparr>snap_value = ''Init'', snap_data = 0, snap_error = None\<rparr> \<lparr>event_type = ''SET_X'', event_value = 5\<rparr>
      = (\<lparr>snap_value = ''Init'', snap_data = 5, snap_error = None\<rparr>, [])"
proof -
  let ?r = "[''SET_X'' \<mapsto> []] :: Restrictions"
  have b: "createFlowMachineWithData scenario_specs 0 (Some scenario_updates) (Some ?r) ''runtimeFlow''
      = Inr (projr (scenario_machine (Some ?r)))"
    by (simp add: scenario_machine_built scenario_machine_def [symmetric])
  have r: "?r ''SET_X'' = Some []" "''SET_X'' \<notin> set object_prototype_keys"
    by (simp_all add: object_prototype_keys_def)
  note c10 = C10_empty_restriction [where r = ?r and e = "''SET_X''" and inputSpecs = scenario_specs
      and initialContext = 0 and updates = "Some scenario_updates" and mid = "''runtimeFlow''"
      and u = scenario_updates and updater = set_x and m = "projr (scenario_machine (Some ?r))"
      and cur = "''Init''" and d = 0 and v = 5]
  from c10 [THEN conjunct1, THEN mp, OF conjI, OF r]
  have eq: "scenario_machine (Some ?r) = scenario_machine (Some Map.empty)"
    by (simp add: scenario_machine_def)
  from c10 [THEN conjunct2] r b scenario_keys(1) scenario_status(2) scenario_status(6)
  have "send (projr (scenario_machine (Some ?r)))
        \<lparr>snap_value = ''Init'', snap_data = 0, snap_error = None\<rparr> \<lparr>event_type = ''SET_X'', event_value = 5\<rparr>
      = (\<lparr>snap_value = ''Init'', snap_data = 5, snap_error = None\<rparr>, [])"
    by (simp add: set_x_def)
  with eq r scenario_status scenario_keys show ?thesis by simp
qed

text \<open>C10 does not hold in every state: with empty restrictions for \<open>TO_Edit\<close> and
  \<open>SET_X\<close>, firing \<open>TO_Edit\<close> in Init takes the edge to Edit and firing \<open>SET_X\<close> in
  the final state Saved is not taken; the data stays 0 although the updater returns 5.
  Nor is an empty entry like no entry for the update key \<open>constructor\<close>: with the
  entry the builder returns a machine, without it the builder raises a type error.\<close>

theorem C10_counterexample:
  "[''TO_Edit'' \<mapsto> [], ''SET_X'' \<mapsto> []] ''TO_Edit'' = Some ([] :: StateName list)
   \<and> [''TO_Edit'' \<mapsto> [], ''SET_X'' \<mapsto> []] ''SET_X'' = Some ([] :: StateName list)
   \<and> scenario_updates ''SET_X'' = Some set_x \<and> scenario_updates ''TO_Edit'' = Some set_x
   \<and> set_x 0 5 '''' = 5
   \<and> \<not> isl (scenario_machine (Some [''TO_Edit'' \<mapsto> [], ''SET_X'' \<mapsto> []]))
   \<and> send (projr (scenario_machine (Some [''TO_Edit'' \<mapsto> [], ''SET_X'' \<mapsto> []])))
        \<lparr>snap_value = ''Init'', snap_data = 0, snap_error = None\<rparr> \<lparr>event_type = ''TO_Edit'', event_value = 5\<rparr>
      = (\<lparr>snap_value = ''Edit'', snap_data = 0, snap_error = None\<rparr>, [])
   \<and> send (projr (scenario_machine (Some [''TO_Edit'' \<mapsto> [], ''SET_X'' \<mapsto> []])))
        \<lparr>snap_value = ''Saved'', snap_data = 0, snap_error = None\<rparr> \<lparr>event_type = ''SET_X'', event_value = 5\<rparr>
      = (\<lparr>snap_value = ''Saved'', snap_data = 0, snap_error = None\<rparr>, [])
   \<and> inherited_updates ''constructor'' = Some set_x
   \<and> [''constructor'' \<mapsto> []] ''constructor'' = Some ([] :: StateName list)
   \<and> \<not> isl (createFlowMachineWithData scenario_specs 0 (Some inherited_updates)
               (Some [''constructor'' \<mapsto> []]) ''runtimeFlow'')
   \<and> createFlowMachineWithData scenario_specs 0 (Some inherited_updates)
        (Some ([''constructor'' \<mapsto> []](''constructor'' := None))) ''runtimeFlow''
      = Inl TypeError"
proof -
  have a: "[''TO_Edit'' \<mapsto> [], ''SET_X'' \<mapsto> []] ''TO_Edit'' = Some ([] :: StateName list)
   \<and> [''TO_Edit'' \<mapsto> [], ''SET_X'' \<mapsto> []] ''SET_X'' = Some ([] :: StateName list)
   \<and> scenario_updates ''SET_X'' = Some set_x \<and> scenario_updates ''TO_Edit'' = Some set_x
   \<and> set_x 0 5 '''' = 5
   \<and> \<not> isl (scenario_machine (Some [''TO_Edit'' \<mapsto> [], ''SET_X'' \<mapsto> []]))
   \<and> send (projr (scenario_machine (Some [''TO_Edit'' \<mapsto> [], ''SET_X'' \<mapsto> []])))
        \<lparr>snap_value = ''Init'', snap_data = 0, snap_error = None\<rparr> \<lparr>event_type = ''TO_Edit'', event_value = 5\<rparr>
      = (\<lparr>snap_value = ''Edit'', snap_data = 0, snap_error = None\<rparr>, [])
   \<and> send (projr (scenario_machine (Some [''TO_Edit'' \<mapsto> [], ''SET_X'' \<mapsto> []])))
        \<lparr>snap_value = ''Saved'', snap_data = 0, snap_error = None\<rparr> \<lparr>event_type = ''SET_X'', event_value = 5\<rparr>
      = (\<lparr>snap_value = ''Saved'', snap_data = 0, snap_error = None\<rparr>, [])"
    by (simp add: scenario_eval)
  have b: "inherited_updates ''constructor'' = Some set_x"
    "[''constructor'' \<mapsto> []] ''constructor'' = Some ([] :: StateName list)"
    "\<not> isl (createFlowMachineWithData scenario_specs 0 (Some inherited_updates)
               (Some [''constructor'' \<mapsto> []]) ''runtimeFlow'')"
    by (simp_all add: inherited_built) (simp add: inherited_updates_def)
  have c: "createFlowMachineWithData scenario_specs 0 (Some inherited_updates)
        (Some ([''constructor'' \<mapsto> []](''constructor'' := None))) ''runtimeFlow''
      = Inl TypeError"
    by (simp add: scenario_specs_def inherited_updates_def build_eval)
  from a b c show ?thesis by (simp only: simp_thms)
qed

section \<open>Terminal states\<close>

lemma state_table_Final:
  assumes s: "s \<in> set specs"
    and all: "list_all (\<lambda>s'. name s' = name s \<longrightarrow> truthy (terminal s')) specs"
  shows "state_table specs (name s) = Some Final"
proof -
  from s have "state_table specs (name s) \<noteq> None"
    by (simp add: state_table_None_iff)
  then obtain nd where nd: "state_table specs (name s) = Some nd" by auto
  from state_table_SomeD [OF nd] obtain s' where "s' \<in> set specs" "name s' = name s"
    "nd = state_node s'" by auto
  with all have "nd = Final" by (auto simp: list_all_iff state_node_def)
  with nd show ?thesis by simp
qed

lemma send_final: "states m (snap_value snap) = Some Final \<Longrightarrow> send m snap ev = (snap, [])"
  by (simp add: send_def)

lemma run_final: "states m (snap_value snap) = Some Final \<Longrightarrow> run m snap evs = snap"
  by (induction evs) (simp_all add: send_final)

text \<open>C5. For a spec marked terminal, provided every spec of the list with the same name
  is marked terminal too (as when names are unique), the machine built by any of the
  three builders has a final node for that state, without event handlers whatever its
  \<open>to\<close> list is; once the current state is that state, no sequence of events changes
  the current state (or anything else) again.\<close>

theorem C5_terminal_absorbing:
  "(createFlowMachineWithData inputSpecs initialContext updates restricted mid = Inr md
      \<and> s \<in> set (normalizeSpecs inputSpecs) \<and> truthy (terminal s)
      \<and> list_all (\<lambda>s'. name s' = name s \<longrightarrow> truthy (terminal s')) (normalizeSpecs inputSpecs) \<longrightarrow>
      states md (name s) = Some Final
      \<and> (\<forall>snap evs. snap_value snap = name s \<longrightarrow> run md snap evs = snap))
   \<and> (createFlowMachine specs mid = Inr (mp, out)
      \<and> s \<in> set specs \<and> truthy (terminal s)
      \<and> list_all (\<lambda>s'. name s' = name s \<longrightarrow> truthy (terminal s')) specs \<longrightarrow>
      states mp (name s) = Some Final
      \<and> (\<forall>snap evs. snap_value snap = name s \<longrightarrow> run mp snap evs = snap))
   \<and> (makeFlowMachine specs mid = Inr (mm, out')
      \<and> s \<in> set specs \<and> truthy (terminal s)
      \<and> list_all (\<lambda>s'. name s' = name s \<longrightarrow> truthy (terminal s')) specs \<longrightarrow>
      states mm (name s) = Some Final
      \<and> (\<forall>snap evs. snap_value snap = name s \<longrightarrow> run mm snap evs = snap))"
proof -
  have gen: "states m (name s) = Some Final
      \<and> (\<forall>snap evs. snap_value snap = name s \<longrightarrow> run m snap evs = snap)"
    if "states m = state_table sp" "s \<in> set sp"
      "list_all (\<lambda>s'. name s' = name s \<longrightarrow> truthy (terminal s')) sp"
    for m :: "('x, 'y) machine" and sp
  proof -
    from state_table_Final [OF that(2,3)] that(1)
    have f: "states m (name s) = Some Final" by simp
    then show ?thesis by (simp add: run_final)
  qed
  show ?thesis
  proof (intro conjI impI)
    assume "createFlowMachineWithData inputSpecs initialContext updates restricted mid = Inr md
      \<and> s \<in> set (normalizeSpecs inputSpecs) \<and> truthy (terminal s)
      \<and> list_all (\<lambda>s'. name s' = name s \<longrightarrow> truthy (terminal s')) (normalizeSpecs inputSpecs)"
    then show "states md (name s) = Some Final"
      "\<forall>snap evs. snap_value snap = name s \<longrightarrow> run md snap evs = snap"
      using gen [OF built_states, of inputSpecs initialContext updates restricted mid md] by simp_all
  next
    assume "createFlowMachine specs mid = Inr (mp, out)
      \<and> s \<in> set specs \<and> truthy (terminal s)
      \<and> list_all (\<lambda>s'. name s' = name s \<longrightarrow> truthy (terminal s')) specs"
    then show "states mp (name s) = Some Final"
      "\<forall>snap evs. snap_value snap = name s \<longrightarrow> run mp snap evs = snap"
      using gen [OF createFlowMachine_InrD [THEN conjunct2, THEN conjunct1], of specs mid mp out]
      by simp_all
  next
    assume "makeFlowMachine specs mid = Inr (mm, out')
      \<and> s \<in> set specs \<and> truthy (terminal s)
      \<and> list_all (\<lambda>s'. name s' = name s \<longrightarrow> truthy (terminal s')) specs"
    then show "states mm (name s) = Some Final"
      "\<forall>snap evs. snap_value snap = name s \<longrightarrow> run mm snap evs = snap"
      using gen [OF makeFlowMachine_InrD [THEN conjunct2, THEN conjunct1], of specs mid mm out']
      by simp_all
  qed
qed

text \<open>C5 at the scenario: the terminal state Saved.\<close>

theorem C5_witness:
  "\<not> isl (scenario_machine None)
   \<and> \<lparr>name = ''Saved'', to = [], terminal = Some True\<rparr> \<in> set (normalizeSpecs scenario_specs)
   \<and> \<lparr>name = ''Saved'', to = [], terminal = Some True\<rparr> \<in> set scenario_specs
   \<and> truthy (Some True)
   \<and> \<not> isl (createFlowMachine scenario_specs ''runtimeFlow''
            :: error + ((unit, nat) machine \<times> console list))
   \<and> \<not> isl (makeFlowMachine scenario_specs ''runtimeFlow''
            :: error + ((unit, nat) machine \<times> console list))
   \<and> run (projr (scenario_machine None)) \<lparr>snap_value = ''Saved'', snap_data = 0, snap_error = None\<rparr>
        [\<lparr>event_type = ''TO_Edit'', event_value = 1\<rparr>, \<lparr>event_type = ''SET_X'', event_value = 5\<rparr>]
      = \<lparr>snap_value = ''Saved'', snap_data = 0, snap_error = None\<rparr>
   \<and> run (fst (projr (createFlowMachine scenario_specs ''runtimeFlow''
            :: error + ((unit, nat) machine \<times> console list))))
        \<lparr>snap_value = ''Saved'', snap_data = (), snap_error = None\<rparr> [\<lparr>event_type = ''TO_Edit'', event_value = 1\<rparr>]
      = \<lparr>snap_value = ''Saved'', snap_data = (), snap_error = None\<rparr>
   \<and> run (fst (projr (makeFlowMachine scenario_specs ''runtimeFlow''
            :: error + ((unit, nat) machine \<times> console list))))
        \<lparr>snap_value = ''Saved'', snap_data = (), snap_error = None\<rparr> [\<lparr>event_type = ''TO_Edit'', event_value = 1\<rparr>]
      = \<lparr>snap_value = ''Saved'', snap_data = (), snap_error = None\<rparr>"
proof -
  let ?s = "\<lparr>name = ''Saved'', to = [], terminal = Some True\<rparr>"
  let ?mp = "fst (projr (createFlowMachine scenario_specs ''runtimeFlow''
            :: error + ((unit, nat) machine \<times> console list)))"
  let ?mm = "fst (projr (makeFlowMachine scenario_specs ''runtimeFlow''
            :: error + ((unit, nat) machine \<times> console list)))"
  note vp = createFlowMachine_valid [OF valid_scenario(1) names_ok_scenario(1)]
  note vm = makeFlowMachine_valid [OF valid_scenario(1) names_ok_scenario(1)]
  have bd: "createFlowMachineWithData scenario_specs 0 (Some scenario_updates) None ''runtimeFlow''
      = Inr (projr (scenario_machine None))"
    by (simp add: scenario_machine_built scenario_machine_def [symmetric])
  have bp: "createFlowMachine scenario_specs ''runtimeFlow'' = Inr (?mp, [])"
    by (simp add: vp)
  have bm: "makeFlowMachine scenario_specs ''runtimeFlow'' = Inr (?mm, [])"
    by (simp add: vm)
  have mem: "?s \<in> set (normalizeSpecs scenario_specs)" "?s \<in> set scenario_specs"
    by (simp_all add: normalize_scenario) (simp add: scenario_specs_def)
  have t: "truthy (terminal ?s)" by (simp add: truthy_def)
  have all: "list_all (\<lambda>s'. name s' = name ?s \<longrightarrow> truthy (terminal s')) (normalizeSpecs scenario_specs)"
    "list_all (\<lambda>s'. name s' = name ?s \<longrightarrow> truthy (terminal s')) scenario_specs"
    by (simp_all add: normalize_scenario truthy_def) (simp add: scenario_specs_def truthy_def)
  note c5 = C5_terminal_absorbing [of scenario_specs 0 "Some scenario_updates" None "''runtimeFlow''"
      "projr (scenario_machine None)" ?s scenario_specs ?mp "[]" ?mm "[]"]
  note c5d = c5 [THEN conjunct1, THEN mp, OF conjI, OF bd conjI, OF mem(1) conjI, OF t all(1)]
  note c5p = c5 [THEN conjunct2, THEN conjunct1, THEN mp, OF conjI, OF bp conjI, OF mem(2) conjI,
      OF t all(2)]
  note c5m = c5 [THEN conjunct2, THEN conjunct2, THEN mp, OF conjI, OF bm conjI, OF mem(2) conjI,
      OF t all(2)]
  note a1 = c5d [THEN conjunct2, rule_format]
  note a2 = c5p [THEN conjunct2, rule_format]
  note a3 = c5m [THEN conjunct2, rule_format]
  have r1: "run (projr (scenario_machine None)) \<lparr>snap_value = ''Saved'', snap_data = 0, snap_error = None\<rparr>
        [\<lparr>event_type = ''TO_Edit'', event_value = 1\<rparr>, \<lparr>event_type = ''SET_X'', event_value = 5\<rparr>]
      = \<lparr>snap_value = ''Saved'', snap_data = 0, snap_error = None\<rparr>"
    by (rule a1) simp
  have r2: "run ?mp \<lparr>snap_value = ''Saved'', snap_data = (), snap_error = None\<rparr> [\<lparr>event_type = ''TO_Edit'', event_value = 1\<rparr>]
      = \<lparr>snap_value = ''Saved'', snap_data = (), snap_error = None\<rparr>"
    by (rule a2) simp
  have r3: "run ?mm \<lparr>snap_value = ''Saved'', snap_data = (), snap_error = None\<rparr> [\<lparr>event_type = ''TO_Edit'', event_value = 1\<rparr>]
      = \<lparr>snap_value = ''Saved'', snap_data = (), snap_error = None\<rparr>"
    by (rule a3) simp
  have nl: "\<not> isl (createFlowMachine scenario_specs ''runtimeFlow''
            :: error + ((unit, nat) machine \<times> console list))"
    "\<not> isl (makeFlowMachine scenario_specs ''runtimeFlow''
            :: error + ((unit, nat) machine \<times> console list))"
    by (simp_all add: vp vm)
  from mem scenario_status(1) nl r1 r2 r3 show ?thesis
    by (simp only: truthy_def option.case simp_thms)
qed

lemma shadowed_built:
  "createFlowMachine shadowed_specs ''runtimeFlow'' =
     Inr (\<lparr>machine_id = ''runtimeFlow'', context_data = (), initial = ''A'',
           states = state_table shadowed_specs, on = Map.empty\<rparr>,
          [console_error (''[FlowRunner] Duplicate state name: '' @ quoted ''A'' @ ''.'')])"
  by (simp add: shadowed_specs_def build_eval state_table_def state_node_def edge_events_def
      fun_eq_iff)

text \<open>C5 does not hold for every spec marked terminal: the plain builder logs a
  duplicate name and goes on, and the state table keeps the last spec of a name.  The
  first spec A is marked terminal, yet state A of the built machine is not final and
  \<open>TO_B\<close> moves it to B.\<close>

theorem C5_counterexample:
  "truthy (terminal (hd shadowed_specs)) \<and> name (hd shadowed_specs) = ''A''
   \<and> to (hd shadowed_specs) = [''B'']
   \<and> \<not> isl (createFlowMachine shadowed_specs ''runtimeFlow''
            :: error + ((unit, unit) machine \<times> console list))
   \<and> states (fst (projr (createFlowMachine shadowed_specs ''runtimeFlow''
            :: error + ((unit, unit) machine \<times> console list)))) ''A'' \<noteq> Some Final
   \<and> send (fst (projr (createFlowMachine shadowed_specs ''runtimeFlow''
            :: error + ((unit, unit) machine \<times> console list))))
        \<lparr>snap_value = ''A'', snap_data = (), snap_error = None\<rparr> \<lparr>event_type = ''TO_B'', event_value = ()\<rparr>
      = (\<lparr>snap_value = ''B'', snap_data = (), snap_error = None\<rparr>, [])"
  by (simp add: shadowed_built)
     (simp add: shadowed_specs_def truthy_def state_table_def fromEntries_def state_node_def
      edge_events_def send_def)

section \<open>Duplicate names and undeclared targets\<close>

lemma duplicate_name_throws:
  assumes "truthy_str (find_dup (map name (normalizeSpecs inputSpecs)))"
  shows "\<exists>d. find_dup (map name (normalizeSpecs inputSpecs)) = Some d \<and> d \<noteq> [] \<and>
     createFlowMachineWithData inputSpecs initialContext updates restricted mid
       = Inl (Error (''[FlowRunnerWithData] Duplicate state name: '' @ quoted d @ ''.''))"
proof -
  from assms obtain d where d: "find_dup (map name (normalizeSpecs inputSpecs)) = Some d" "d \<noteq> []"
    by (auto simp: truthy_str_def split: option.splits)
  then have "normalizeSpecs inputSpecs \<noteq> []"
    by (auto simp: find_dup_def find_idx_def)
  with d assms show ?thesis
    by (simp add: createFlowMachineWithData_def Let_def)
qed

text \<open>C6. A list in which the empty name comes twice, after a first spec A: the
  duplicate that \<open>find\<close> returns is the empty string, which \<open>if (dup)\<close> takes for no
  duplicate.  The data-carrying builder returns a machine instead of throwing, and the
  plain builder returns a machine and logs nothing.\<close>

theorem C6_blank_duplicate:
  "map name (normalizeSpecs blank_specs) = [''A'', '''', '''']
   \<and> map name blank_specs = [''A'', '''', '''']
   \<and> find_dup [''A'', '''', ''''] = Some ''''
   \<and> \<not> isl (createFlowMachineWithData blank_specs (0::nat)
              (None :: (nat, nat) UpdateMap option) None ''runtimeFlow'')
   \<and> \<not> isl (createFlowMachine blank_specs ''runtimeFlow''
              :: error + ((unit, nat) machine \<times> console list))
   \<and> snd (projr (createFlowMachine blank_specs ''runtimeFlow''
              :: error + ((unit, nat) machine \<times> console list))) = []
   \<and> createFlowMachine_console blank_specs = []"
  by (simp add: blank_specs_def build_eval)








end
